theory Spec2Isabelle
  imports Complex_Main "HOL-Library.Char_ord" "HOL-Library.List_Lexorder"
    "HOL-Library.Product_Lexorder"
begin

section \<open>The store: five SQLite tables\<close>

text \<open>
  The application (\<^verbatim>\<open>app.py\<close>) keeps its state in one SQLite file with the tables
  \<^verbatim>\<open>fincas\<close>, \<^verbatim>\<open>lotes\<close>, \<^verbatim>\<open>mezclas\<close>, \<^verbatim>\<open>mezcla_productos\<close> and \<^verbatim>\<open>aplicaciones\<close>.
  A row is a record whose fields carry the alias the queries of the source use for the
  table (\<^verbatim>\<open>f.\<close>, \<^verbatim>\<open>l.\<close>, \<^verbatim>\<open>m.\<close>, \<^verbatim>\<open>mp.\<close>, \<^verbatim>\<open>a.\<close>).  A table is the list of its rows in
  insertion order, or \<open>None\<close> while \<^verbatim>\<open>CREATE TABLE\<close> has not run for it.

  Numbers: \<^verbatim>\<open>INTEGER\<close> columns are \<open>int\<close>; the ids are SQLite's 64-bit integers, and a
  Python \<^verbatim>\<open>int\<close> outside that range (which \<^verbatim>\<open>sqlite3\<close> refuses to bind, with
  \<^verbatim>\<open>OverflowError\<close>) is outside the model.  \<^verbatim>\<open>REAL\<close> columns hold IEEE doubles in SQLite;
  here they are exact rationals, so sums, differences and products are those of the
  mathematical values and no rounding error is modelled.  Where the doubles of the program
  round, the value of a sum or of a remaining area, and with it the side of a comparison,
  can differ from the one computed here.  The theorems below therefore say what the
  handlers do in terms of the status \<^verbatim>\<open>lote_estado\<close> gives and of the sums the queries
  form; none of them states an identity or a bound of the sums and differences themselves,
  and the rounding of the reports is stated of the exact sum.
\<close>

record finca =
  f_id :: int
  f_nombre :: string
  f_area_total :: rat

record lote =
  l_id :: int
  l_finca_id :: int
  l_nombre :: string
  l_area_total :: rat

record mezcla =
  m_id :: int
  m_nombre :: string

record mezcla_producto =
  mp_id :: int
  mp_mezcla_id :: int
  mp_producto :: string
  mp_dosis_litros_manzana :: rat

record aplicacion =
  a_id :: int
  a_fecha :: string
  a_finca_id :: int
  a_lote_id :: int
  a_mezcla_id :: int
  a_manzanas_aplicadas :: rat

record database =
  fincas :: "finca list option"
  lotes :: "lote list option"
  mezclas :: "mezcla list option"
  mezcla_productos :: "mezcla_producto list option"
  aplicaciones :: "aplicacion list option"

text \<open>A database file that \<^verbatim>\<open>sqlite3.connect\<close> has just created: no table at all.\<close>

definition new_database :: database where
  "new_database =
     \<lparr>fincas = None, lotes = None, mezclas = None, mezcla_productos = None,
      aplicaciones = None\<rparr>"

text \<open>
  Exceptions the handlers can raise.  \<open>BadRequestKeyError\<close> is what \<^verbatim>\<open>request.form[k]\<close>
  raises on a missing key, \<open>OperationalError\<close> what SQLite raises on a missing table,
  \<open>IntegrityError\<close> what it raises on a violated \<^verbatim>\<open>NOT NULL\<close>.  \<open>NotFound\<close> is werkzeug's
  404; no function of \<^verbatim>\<open>app.py\<close> raises it.
\<close>

datatype error =
  ValueError | TypeError | IndexError | BadRequestKeyError
  | OperationalError | IntegrityError | NotFound

definition bind_exc :: "error + 'a \<Rightarrow> ('a \<Rightarrow> error + 'b) \<Rightarrow> error + 'b" where
  "bind_exc r k = (case r of Inl e \<Rightarrow> Inl e | Inr x \<Rightarrow> k x)"

definition table :: "'r list option \<Rightarrow> error + 'r list" where
  "table t = (case t of None \<Rightarrow> Inl OperationalError | Some rows \<Rightarrow> Inr rows)"

section \<open>Text of numbers\<close>

text \<open>\<^verbatim>\<open>str(n)\<close> for a natural number, as the f-strings of \<^verbatim>\<open>init_db\<close> print it.\<close>

definition digit_char :: "nat \<Rightarrow> char" where
  "digit_char d = char_of (48 + d)"

fun str_nat :: "nat \<Rightarrow> string" where
  "str_nat n = (if n < 10 then [digit_char n] else str_nat (n div 10) @ [digit_char (n mod 10)])"

declare str_nat.simps [simp del]

section \<open>Initialisation and seed\<close>

text \<open>
  \<^verbatim>\<open>CREATE TABLE IF NOT EXISTS\<close>: an absent table becomes the empty one, a present one
  is left as it is.
\<close>

definition create_table_if_not_exists :: "'r list option \<Rightarrow> 'r list" where
  "create_table_if_not_exists t = (case t of None \<Rightarrow> [] | Some rows \<Rightarrow> rows)"

text \<open>
  \<^verbatim>\<open>INTEGER PRIMARY KEY AUTOINCREMENT\<close>: the new row gets the successor of the largest
  id the table holds (1 in an empty table).  No path of the application deletes a row, so
  the largest id ever used is the largest id present.
\<close>

definition next_id :: "int list \<Rightarrow> int" where
  "next_id ids = fold max ids 0 + 1"

text \<open>The inner loop of \<^verbatim>\<open>init_db\<close>: \<^verbatim>\<open>for lote_num in range(1, 8)\<close>.\<close>

fun seed_lotes :: "int \<Rightarrow> nat list \<Rightarrow> lote list \<Rightarrow> lote list" where
  "seed_lotes finca_id [] ls = ls"
| "seed_lotes finca_id (lote_num # rest) ls =
     seed_lotes finca_id rest
       (ls @ [\<lparr>l_id = next_id (map l_id ls), l_finca_id = finca_id,
               l_nombre = ''Lote '' @ str_nat lote_num, l_area_total = 10\<rparr>])"

text \<open>
  The outer loop: \<^verbatim>\<open>for finca_num in range(1, 11)\<close>.  \<open>finca_id\<close> is
  \<^verbatim>\<open>last_insert_rowid()\<close>, the id the insert has just given.
\<close>

fun seed_fincas :: "nat list \<Rightarrow> finca list \<times> lote list \<Rightarrow> finca list \<times> lote list" where
  "seed_fincas [] (fs, ls) = (fs, ls)"
| "seed_fincas (finca_num # rest) (fs, ls) =
     (let finca_id = next_id (map f_id fs);
          fs' = fs @ [\<lparr>f_id = finca_id, f_nombre = ''Finca '' @ str_nat finca_num,
                        f_area_total = 70\<rparr>]
      in seed_fincas rest (fs', seed_lotes finca_id [1..<8] ls))"

text \<open>The default mixture and its three products (\<^verbatim>\<open>executemany\<close>).\<close>

definition seed_mezclas ::
  "mezcla list \<times> mezcla_producto list \<Rightarrow> mezcla list \<times> mezcla_producto list" where
  "seed_mezclas = (\<lambda>(ms, mps).
     (let mezcla_id = next_id (map m_id ms);
          ms' = ms @ [\<lparr>m_id = mezcla_id, m_nombre = ''Mezcla 1''\<rparr>];
          p1 = mps @ [\<lparr>mp_id = next_id (map mp_id mps), mp_mezcla_id = mezcla_id,
                        mp_producto = ''Producto A'', mp_dosis_litros_manzana = 3 / 2\<rparr>];
          p2 = p1 @ [\<lparr>mp_id = next_id (map mp_id p1), mp_mezcla_id = mezcla_id,
                       mp_producto = ''Producto B'', mp_dosis_litros_manzana = 2\<rparr>];
          p3 = p2 @ [\<lparr>mp_id = next_id (map mp_id p2), mp_mezcla_id = mezcla_id,
                       mp_producto = ''Producto C'', mp_dosis_litros_manzana = 1 / 2\<rparr>]
      in (ms', p3)))"

text \<open>
  \<^verbatim>\<open>init_db\<close>: the five \<^verbatim>\<open>CREATE TABLE IF NOT EXISTS\<close>, the farms and plots when
  \<^verbatim>\<open>SELECT COUNT(*) FROM fincas\<close> is 0, the mixture when \<^verbatim>\<open>SELECT COUNT(*) FROM mezclas\<close>
  is 0, then the commit.
\<close>

definition init_db :: "database \<Rightarrow> database" where
  "init_db db =
     (let fs = create_table_if_not_exists (fincas db);
          ls = create_table_if_not_exists (lotes db);
          ms = create_table_if_not_exists (mezclas db);
          mps = create_table_if_not_exists (mezcla_productos db);
          aps = create_table_if_not_exists (aplicaciones db);
          (fs', ls') = (if length fs = 0 then seed_fincas [1..<11] (fs, ls) else (fs, ls));
          (ms', mps') = (if length ms = 0 then seed_mezclas (ms, mps) else (ms, mps))
      in \<lparr>fincas = Some fs', lotes = Some ls', mezclas = Some ms',
          mezcla_productos = Some mps', aplicaciones = Some aps\<rparr>)"

section \<open>Python values and library functions\<close>

text \<open>
  A Python \<^verbatim>\<open>float\<close>: a finite value (exact, as above), an infinity or NaN.  \<^verbatim>\<open>float("inf")\<close>
  and \<^verbatim>\<open>float("nan")\<close> are results the form can produce.
\<close>

datatype pyfloat = Finite rat | PosInf | NegInf | NaN

text \<open>\<^verbatim>\<open>manzanas <= 0\<close> and \<^verbatim>\<open>manzanas > restante\<close>; every comparison with NaN is false.\<close>

fun le_zero :: "pyfloat \<Rightarrow> bool" where
  "le_zero (Finite x) = (x \<le> 0)"
| "le_zero NegInf = True"
| "le_zero PosInf = False"
| "le_zero NaN = False"

fun greater :: "pyfloat \<Rightarrow> rat \<Rightarrow> bool" where
  "greater (Finite x) r = (x > r)"
| "greater PosInf r = True"
| "greater NegInf r = False"
| "greater NaN r = False"

record date =
  year :: nat
  month :: nat
  day :: nat

text \<open>
  The functions of Python's library the handler calls are parameters of the model, so every
  theorem holds whatever they return:
  \<^item> \<open>py_int s\<close> is \<^verbatim>\<open>int(s)\<close>, \<open>None\<close> when it raises \<^verbatim>\<open>ValueError\<close>;
  \<^item> \<open>py_float s\<close> is \<^verbatim>\<open>float(s)\<close>, \<open>None\<close> when it raises \<^verbatim>\<open>ValueError\<close>;
  \<^item> \<open>strptime s\<close> is \<^verbatim>\<open>datetime.strptime(s, "%Y-%m-%d").date()\<close>, \<open>None\<close> when it raises
    \<^verbatim>\<open>ValueError\<close>;
  \<^item> \<open>str_float x\<close> is the text an f-string prints for \<^verbatim>\<open>{x}\<close>.
\<close>

record pylib =
  py_int :: "string \<Rightarrow> int option"
  py_float :: "string \<Rightarrow> pyfloat option"
  strptime :: "string \<Rightarrow> date option"
  str_float :: "pyfloat \<Rightarrow> string"

definition to_int :: "pylib \<Rightarrow> string \<Rightarrow> error + int" where
  "to_int L s = (case py_int L s of None \<Rightarrow> Inl ValueError | Some i \<Rightarrow> Inr i)"

definition to_float :: "pylib \<Rightarrow> string \<Rightarrow> error + pyfloat" where
  "to_float L s = (case py_float L s of None \<Rightarrow> Inl ValueError | Some x \<Rightarrow> Inr x)"

text \<open>\<^verbatim>\<open>date.isoformat()\<close>: \<^verbatim>\<open>YYYY-MM-DD\<close>, zero padded.\<close>

definition zero_pad :: "nat \<Rightarrow> string \<Rightarrow> string" where
  "zero_pad w s = replicate (w - length s) (CHR ''0'') @ s"

definition isoformat :: "date \<Rightarrow> string" where
  "isoformat d =
     zero_pad 4 (str_nat (year d)) @ ''-'' @ zero_pad 2 (str_nat (month d)) @ ''-''
       @ zero_pad 2 (str_nat (day d))"

text \<open>
  \<^verbatim>\<open>{restante:.2f}\<close>: the value rounded to two decimals, ties to the even neighbour, with
  the sign of the value.
\<close>

definition round_half_even :: "rat \<Rightarrow> int" where
  "round_half_even y =
     (let f = \<lfloor>y\<rfloor>; r = y - of_int f
      in if r < 1 / 2 then f else if 1 / 2 < r then f + 1 else if even f then f else f + 1)"

definition format_2f :: "rat \<Rightarrow> string" where
  "format_2f x =
     (let n = nat (round_half_even (\<bar>x\<bar> * 100))
      in (if x < 0 then ''-'' else []) @ str_nat (n div 100) @ ''.''
           @ zero_pad 2 (str_nat (n mod 100)))"

text \<open>
  The request: \<^verbatim>\<open>request.form\<close> and \<^verbatim>\<open>request.args\<close>, each a dictionary of strings.
  \<open>truthy\<close> is what \<^verbatim>\<open>d.get(k) or ...\<close> lets through: a present, non-empty string.
\<close>

record request =
  form :: "string \<rightharpoonup> string"
  args :: "string \<rightharpoonup> string"

definition truthy :: "string option \<Rightarrow> string option" where
  "truthy v = (case v of None \<Rightarrow> None | Some s \<Rightarrow> if s = [] then None else Some s)"

text \<open>
  \<^verbatim>\<open>int(request.form.get(k) or request.args.get(k) or rows[0]["id"])\<close>: the default is
  read only when both dictionaries give nothing, and raises \<^verbatim>\<open>IndexError\<close> on no rows.
\<close>

definition selected_id :: "pylib \<Rightarrow> request \<Rightarrow> string \<Rightarrow> int list \<Rightarrow> error + int" where
  "selected_id L req k ids =
     (case truthy (form req k) of
        Some s \<Rightarrow> to_int L s
      | None \<Rightarrow>
          (case truthy (args req k) of
             Some s \<Rightarrow> to_int L s
           | None \<Rightarrow> (case ids of [] \<Rightarrow> Inl IndexError | i # _ \<Rightarrow> Inr i)))"

section \<open>Plot status\<close>

text \<open>
  \<^verbatim>\<open>SUM(a.manzanas_aplicadas)\<close> over the applications of one plot; 0 when there is none
  (\<^verbatim>\<open>COALESCE(..., 0)\<close>).
\<close>

definition aplicadas_lote :: "aplicacion list \<Rightarrow> int \<Rightarrow> rat" where
  "aplicadas_lote aps lote_id =
     sum_list (map a_manzanas_aplicadas (filter (\<lambda>a. a_lote_id a = lote_id) aps))"

record estado =
  area_total :: rat
  aplicadas :: rat
  restante :: rat

text \<open>
  \<^verbatim>\<open>lote_estado\<close>: the row of the plot, left-joined with its applications and grouped by the
  plot's id; \<^verbatim>\<open>fetchone()\<close> gives \<open>None\<close> when no plot has the id.
\<close>

definition lote_estado :: "database \<Rightarrow> int \<Rightarrow> error + estado option" where
  "lote_estado db lote_id =
     bind_exc (table (lotes db)) (\<lambda>ls.
     bind_exc (table (aplicaciones db)) (\<lambda>aps.
       Inr (case filter (\<lambda>l. l_id l = lote_id) ls of
              [] \<Rightarrow> None
            | l # _ \<Rightarrow>
                Some \<lparr>area_total = l_area_total l,
                      aplicadas = aplicadas_lote aps (l_id l),
                      restante = l_area_total l - aplicadas_lote aps (l_id l)\<rparr>)))"

text \<open>
  \<^verbatim>\<open>api_lote_estado\<close>: subscripting the \<open>None\<close> of an unknown plot raises \<^verbatim>\<open>TypeError\<close>.
\<close>

definition api_lote_estado :: "database \<Rightarrow> int \<Rightarrow> error + estado" where
  "api_lote_estado db lote_id =
     bind_exc (lote_estado db lote_id) (\<lambda>row.
       case row of None \<Rightarrow> Inl TypeError | Some e \<Rightarrow> Inr e)"

section \<open>Recording an application\<close>

text \<open>
  The messages \<^verbatim>\<open>index\<close> flashes, as UTF-8 bytes (\<open>0xC3 0xA1\<close> is a-acute, \<open>0xC3 0xB3\<close>
  o-acute).
\<close>

definition msg_fecha :: string where
  "msg_fecha = ''La fecha no tiene un formato v'' @ [CHR 0xC3, CHR 0xA1] @ ''lido.''"

definition msg_manzanas :: string where
  "msg_manzanas = ''Las manzanas aplicadas deben ser mayores que 0.''"

definition msg_excede :: "pylib \<Rightarrow> pyfloat \<Rightarrow> rat \<Rightarrow> string" where
  "msg_excede L area falta =
     ''No se pueden aplicar '' @ str_float L area @ '' manzanas. Solo faltan ''
       @ format_2f falta @ '' en este lote.''"

definition msg_guardada :: string where
  "msg_guardada = ''Aplicaci'' @ [CHR 0xC3, CHR 0xB3] @ ''n guardada correctamente.''"

text \<open>
  What a POST answers: the flashed message with its category, and the redirect to
  \<^verbatim>\<open>index\<close> with the selected farm and plot.
\<close>

record response =
  flash_message :: string
  flash_category :: string
  redirect_finca_id :: int
  redirect_lote_id :: int

definition flash_redirect :: "string \<Rightarrow> string \<Rightarrow> int \<Rightarrow> int \<Rightarrow> response" where
  "flash_redirect msg cat finca_id lote_id =
     \<lparr>flash_message = msg, flash_category = cat, redirect_finca_id = finca_id,
      redirect_lote_id = lote_id\<rparr>"

text \<open>
  The fields a POST works with (lines 34 to 48 of \<^verbatim>\<open>app.py\<close>): the selected farm and plot,
  the raw date, the mixture and the area.  An absent or empty \<^verbatim>\<open>manzanas\<close> is the number 0.
\<close>

record fields =
  selected_finca_id :: int
  selected_lote_id :: int
  fecha_raw :: string
  mezcla_id :: int
  manzanas :: pyfloat

definition index_post_fields :: "pylib \<Rightarrow> database \<Rightarrow> request \<Rightarrow> error + fields" where
  "index_post_fields L db req =
     bind_exc (table (fincas db)) (\<lambda>fs.
     bind_exc (table (mezclas db)) (\<lambda>ms.
     bind_exc (selected_id L req ''finca_id'' (map f_id (sort_key f_id fs))) (\<lambda>finca_id.
     bind_exc (table (lotes db)) (\<lambda>ls.
     bind_exc (selected_id L req ''lote_id''
                 (map l_id (sort_key l_id (filter (\<lambda>l. l_finca_id l = finca_id) ls))))
       (\<lambda>lote_id.
     bind_exc (case form req ''mezcla_id'' of
                 None \<Rightarrow> Inl BadRequestKeyError
               | Some s \<Rightarrow> to_int L s) (\<lambda>mezcla.
     bind_exc (case truthy (form req ''manzanas'') of
                 None \<Rightarrow> Inr (Finite 0)
               | Some s \<Rightarrow> to_float L s) (\<lambda>area.
       Inr \<lparr>selected_finca_id = finca_id, selected_lote_id = lote_id,
            fecha_raw = (case form req ''fecha'' of None \<Rightarrow> [] | Some s \<Rightarrow> s),
            mezcla_id = mezcla, manzanas = area\<rparr>)))))))"

text \<open>
  The \<^verbatim>\<open>INSERT INTO aplicaciones\<close>.  SQLite binds a NaN as \<^verbatim>\<open>NULL\<close>, which the column's
  \<^verbatim>\<open>NOT NULL\<close> refuses.  (An infinity never comes this far: \<open>PosInf\<close> is greater than every
  remaining area and \<open>NegInf\<close> is not positive.)  Foreign keys are declared but SQLite does
  not enforce them unless \<^verbatim>\<open>PRAGMA foreign_keys\<close> is set, and the application never sets it.
\<close>

definition insert_aplicacion ::
  "aplicacion list \<Rightarrow> string \<Rightarrow> int \<Rightarrow> int \<Rightarrow> int \<Rightarrow> pyfloat \<Rightarrow> error + aplicacion list" where
  "insert_aplicacion aps fecha finca_id lote_id mezcla area =
     (case area of
        Finite x \<Rightarrow>
          Inr (aps @ [\<lparr>a_id = next_id (map a_id aps), a_fecha = fecha, a_finca_id = finca_id,
                       a_lote_id = lote_id, a_mezcla_id = mezcla, a_manzanas_aplicadas = x\<rparr>])
      | _ \<Rightarrow> Inl IntegrityError)"

text \<open>
  Lines 50 to 77: the date, the plot's status, the two checks on the area, the insert.
  The result is the store after the commit and the response.
\<close>

definition index_post_record :: "pylib \<Rightarrow> database \<Rightarrow> fields \<Rightarrow> error + database \<times> response" where
  "index_post_record L db fl =
     (case strptime L (fecha_raw fl) of
        None \<Rightarrow>
          Inr (db, flash_redirect msg_fecha ''error'' (selected_finca_id fl) (selected_lote_id fl))
      | Some fecha \<Rightarrow>
          bind_exc (lote_estado db (selected_lote_id fl)) (\<lambda>row.
            case row of
              None \<Rightarrow> Inl TypeError
            | Some e \<Rightarrow>
                if le_zero (manzanas fl) then
                  Inr (db, flash_redirect msg_manzanas ''error''
                             (selected_finca_id fl) (selected_lote_id fl))
                else if greater (manzanas fl) (restante e) then
                  Inr (db, flash_redirect (msg_excede L (manzanas fl) (restante e)) ''error''
                             (selected_finca_id fl) (selected_lote_id fl))
                else
                  bind_exc (table (aplicaciones db)) (\<lambda>aps.
                  bind_exc (insert_aplicacion aps (isoformat fecha) (selected_finca_id fl)
                              (selected_lote_id fl) (mezcla_id fl) (manzanas fl)) (\<lambda>aps'.
                    Inr (db\<lparr>aplicaciones := Some aps'\<rparr>,
                         flash_redirect msg_guardada ''success''
                           (selected_finca_id fl) (selected_lote_id fl))))))"

text \<open>
  The POST branch of \<^verbatim>\<open>index\<close>.  An exception leaves the store as it was: nothing is
  written before the insert, and an insert that fails is never committed.
\<close>

definition index_post :: "pylib \<Rightarrow> database \<Rightarrow> request \<Rightarrow> database \<times> (error + response)" where
  "index_post L db req =
     (case bind_exc (index_post_fields L db req) (index_post_record L db) of
        Inl e \<Rightarrow> (db, Inl e)
      | Inr (db', r) \<Rightarrow> (db', Inr r))"

text \<open>
  A POST request as the application serves it: \<^verbatim>\<open>_ensure_db\<close> runs \<^verbatim>\<open>init_db\<close> before
  every request.
\<close>

definition post_request :: "pylib \<Rightarrow> database \<Rightarrow> request \<Rightarrow> database \<times> (error + response)" where
  "post_request L db req = index_post L (init_db db) req"

section \<open>Reports\<close>

text \<open>
  \<^verbatim>\<open>GROUP BY\<close>: the rows that share a key form one group, a first row and the rest, in
  the order of the input.
\<close>

function group_by :: "('r \<Rightarrow> 'k) \<Rightarrow> 'r list \<Rightarrow> ('k \<times> 'r \<times> 'r list) list" where
  "group_by key [] = []"
| "group_by key (r # rs) =
     (key r, r, filter (\<lambda>x. key x = key r) rs) # group_by key (filter (\<lambda>x. key x \<noteq> key r) rs)"
  by pat_completeness auto
termination
  by (relation "measure (\<lambda>(key, rs). length rs)") (auto simp: less_Suc_eq_le)

text \<open>
  \<^verbatim>\<open>ROUND(x, n)\<close> of SQLite: the nearest number with \<open>n\<close> decimals, a tie away from
  zero.
\<close>

definition sql_round :: "rat \<Rightarrow> nat \<Rightarrow> rat" where
  "sql_round x n =
     (if x < 0 then - of_int \<lfloor>- x * 10 ^ n + 1 / 2\<rfloor> / 10 ^ n
      else of_int \<lfloor>x * 10 ^ n + 1 / 2\<rfloor> / 10 ^ n)"

text \<open>\<^verbatim>\<open>a.manzanas_aplicadas * mp.dosis_litros_manzana\<close>\<close>

definition litros :: "aplicacion \<Rightarrow> mezcla_producto \<Rightarrow> rat" where
  "litros a mp = a_manzanas_aplicadas a * mp_dosis_litros_manzana mp"

text \<open>
  \<^verbatim>\<open>obtener_totales_producto\<close>: applications joined to the products of their mixture,
  grouped by product, ordered by product.  Text is compared byte by byte (SQLite's
  \<^verbatim>\<open>BINARY\<close> collation), which is the order of \<open>string\<close> here.
\<close>

definition totales_join ::
  "aplicacion list \<Rightarrow> mezcla_producto list \<Rightarrow> (aplicacion \<times> mezcla_producto) list" where
  "totales_join aps mps = [(a, mp). a \<leftarrow> aps, mp \<leftarrow> mps, mp_mezcla_id mp = a_mezcla_id a]"

definition obtener_totales_producto :: "database \<Rightarrow> error + (string \<times> rat) list" where
  "obtener_totales_producto db =
     bind_exc (table (aplicaciones db)) (\<lambda>aps.
     bind_exc (table (mezcla_productos db)) (\<lambda>mps.
       Inr (map (\<lambda>(producto, r, rs).
                   (producto, sql_round (sum_list (map (\<lambda>(a, mp). litros a mp) (r # rs))) 2))
              (sort_key fst (group_by (\<lambda>(a, mp). mp_producto mp) (totales_join aps mps))))))"

text \<open>
  \<^verbatim>\<open>obtener_detalle_producto\<close>: applications joined to their farm, their plot and the
  products of their mixture, grouped and ordered by farm id, plot id and product.  The
  farm's and the plot's name are read from the first row of the group.
\<close>

definition detalle_join ::
  "aplicacion list \<Rightarrow> finca list \<Rightarrow> lote list \<Rightarrow> mezcla_producto list
     \<Rightarrow> (aplicacion \<times> finca \<times> lote \<times> mezcla_producto) list" where
  "detalle_join aps fs ls mps =
     [(a, f, l, mp). a \<leftarrow> aps, f \<leftarrow> fs, f_id f = a_finca_id a, l \<leftarrow> ls, l_id l = a_lote_id a,
        mp \<leftarrow> mps, mp_mezcla_id mp = a_mezcla_id a]"

definition detalle_grupos ::
  "aplicacion list \<Rightarrow> finca list \<Rightarrow> lote list \<Rightarrow> mezcla_producto list
     \<Rightarrow> ((int \<times> int \<times> string) \<times> (aplicacion \<times> finca \<times> lote \<times> mezcla_producto)
          \<times> (aplicacion \<times> finca \<times> lote \<times> mezcla_producto) list) list" where
  "detalle_grupos aps fs ls mps =
     sort_key fst
       (group_by (\<lambda>(a, f, l, mp). (f_id f, l_id l, mp_producto mp)) (detalle_join aps fs ls mps))"

definition obtener_detalle_producto ::
  "database \<Rightarrow> error + (string \<times> string \<times> string \<times> rat) list" where
  "obtener_detalle_producto db =
     bind_exc (table (aplicaciones db)) (\<lambda>aps.
     bind_exc (table (fincas db)) (\<lambda>fs.
     bind_exc (table (lotes db)) (\<lambda>ls.
     bind_exc (table (mezcla_productos db)) (\<lambda>mps.
       Inr (map (\<lambda>(k, (a, f, l, mp), rs).
                   (f_nombre f, l_nombre l, mp_producto mp,
                    sql_round
                      (sum_list (map (\<lambda>(a, f, l, mp). litros a mp) ((a, f, l, mp) # rs))) 2))
              (detalle_grupos aps fs ls mps))))))"

text \<open>
  \<^verbatim>\<open>resumen\<close>: both reports, for the template.  The handler only reads: the store it
  leaves is the store it found.
\<close>

definition resumen ::
  "database \<Rightarrow> database
     \<times> (error + (string \<times> string \<times> string \<times> rat) list \<times> (string \<times> rat) list)" where
  "resumen db =
     (db, bind_exc (obtener_detalle_producto db) (\<lambda>detalle.
          bind_exc (obtener_totales_producto db) (\<lambda>totales. Inr (detalle, totales))))"

section \<open>The properties, as the specification words them\<close>

text \<open>\<^verbatim>\<open>PRIMARY KEY\<close>: no two farms and no two plots share an id.\<close>

definition primary_keys :: "database \<Rightarrow> bool" where
  "primary_keys db =
     (case fincas db of
        None \<Rightarrow> False
      | Some fs \<Rightarrow>
          (case lotes db of
             None \<Rightarrow> False
           | Some ls \<Rightarrow> distinct (map f_id fs) \<and> distinct (map l_id ls)))"

text \<open>
  The consistency of the denormalised farm id: an application's farm is the farm of its
  plot.
\<close>

definition farm_consistent :: "lote list \<Rightarrow> aplicacion \<Rightarrow> bool" where
  "farm_consistent ls a =
     list_all (\<lambda>l. l_finca_id l = a_finca_id a) (filter (\<lambda>l. l_id l = a_lote_id a) ls)"

text \<open>
  Totals, in the specification's words: one row per product that some application's
  mixture contains, in ascending order of the product's name, with the rounded sum of
  area times dose over the applications joined to that product by their mixture.
\<close>

definition totales_spec :: "aplicacion list \<Rightarrow> mezcla_producto list \<Rightarrow> (string \<times> rat) list" where
  "totales_spec aps mps =
     map (\<lambda>p. (p, sql_round
                    (sum_list [litros a mp. a \<leftarrow> aps, mp \<leftarrow> mps,
                                 mp_mezcla_id mp = a_mezcla_id a \<and> mp_producto mp = p]) 2))
       (sorted_list_of_set
          (set [mp_producto mp. a \<leftarrow> aps, mp \<leftarrow> mps, mp_mezcla_id mp = a_mezcla_id a]))"

text \<open>
  Detail, in the specification's words: one row per farm id, plot id and product of an
  application whose farm and plot exist, in ascending order of that triple, with the names
  of the farm and the plot and the rounded sum of area times dose.
\<close>

definition nombre_finca :: "finca list \<Rightarrow> int \<Rightarrow> string" where
  "nombre_finca fs i = (case find (\<lambda>f. f_id f = i) fs of None \<Rightarrow> [] | Some f \<Rightarrow> f_nombre f)"

definition nombre_lote :: "lote list \<Rightarrow> int \<Rightarrow> string" where
  "nombre_lote ls i = (case find (\<lambda>l. l_id l = i) ls of None \<Rightarrow> [] | Some l \<Rightarrow> l_nombre l)"

definition detalle_spec ::
  "aplicacion list \<Rightarrow> finca list \<Rightarrow> lote list \<Rightarrow> mezcla_producto list
     \<Rightarrow> ((int \<times> int \<times> string) \<times> (string \<times> string \<times> string \<times> rat)) list" where
  "detalle_spec aps fs ls mps =
     map (\<lambda>(i, j, p).
            ((i, j, p),
             (nombre_finca fs i, nombre_lote ls j, p,
              sql_round
                (sum_list [litros a mp. a \<leftarrow> aps, a_finca_id a = i \<and> a_lote_id a = j, mp \<leftarrow> mps,
                             mp_mezcla_id mp = a_mezcla_id a \<and> mp_producto mp = p]) 2)))
       (sorted_list_of_set
          (set [(a_finca_id a, a_lote_id a, mp_producto mp). a \<leftarrow> aps,
                  a_finca_id a \<in> f_id ` set fs \<and> a_lote_id a \<in> l_id ` set ls, mp \<leftarrow> mps,
                  mp_mezcla_id mp = a_mezcla_id a]))"

text \<open>
  The rows the detail's join gives for one application when ids are primary keys: none
  unless its farm and its plot exist, else one per product of its mixture.
\<close>

definition filas_aplicacion ::
  "finca list \<Rightarrow> lote list \<Rightarrow> mezcla_producto list \<Rightarrow> aplicacion
     \<Rightarrow> (aplicacion \<times> finca \<times> lote \<times> mezcla_producto) list" where
  "filas_aplicacion fs ls mps a =
     (case find (\<lambda>f. f_id f = a_finca_id a) fs of
        None \<Rightarrow> []
      | Some f \<Rightarrow>
          (case find (\<lambda>l. l_id l = a_lote_id a) ls of
             None \<Rightarrow> []
           | Some l \<Rightarrow>
               map (\<lambda>mp. (a, f, l, mp)) (filter (\<lambda>mp. mp_mezcla_id mp = a_mezcla_id a) mps)))"

text \<open>The row an accepted recording appends.\<close>

definition nueva_aplicacion :: "aplicacion list \<Rightarrow> date \<Rightarrow> fields \<Rightarrow> rat \<Rightarrow> aplicacion" where
  "nueva_aplicacion aps d fl x =
     \<lparr>a_id = next_id (map a_id aps), a_fecha = isoformat d,
      a_finca_id = selected_finca_id fl, a_lote_id = selected_lote_id fl,
      a_mezcla_id = mezcla_id fl, a_manzanas_aplicadas = x\<rparr>"

section \<open>A library instance and requests for the examples\<close>

text \<open>
  An instance of the library parameter for the examples.  It reads unsigned decimal
  numerals (for a float, with an optional fraction after a point) and dates written
  \<^verbatim>\<open>YYYY-MM-DD\<close>, and prints a float by its decimal expansion, with at least one and at
  most 17 decimals.  Python's functions accept more strings than these, and print very
  large and very small floats with an exponent; on the strings and numbers of the examples
  they agree.
\<close>

definition is_digit :: "char \<Rightarrow> bool" where
  "is_digit c = (CHR ''0'' \<le> c \<and> c \<le> CHR ''9'')"

definition read_nat :: "string \<Rightarrow> nat option" where
  "read_nat s =
     (if s \<noteq> [] \<and> list_all is_digit s
      then Some (fold (\<lambda>c n. 10 * n + (of_char c - 48)) s 0) else None)"

definition days_in_month :: "nat \<Rightarrow> nat \<Rightarrow> nat" where
  "days_in_month y m =
     (if m = 2 then (if y mod 4 = 0 \<and> (y mod 100 \<noteq> 0 \<or> y mod 400 = 0) then 29 else 28)
      else if m = 4 \<or> m = 6 \<or> m = 9 \<or> m = 11 then 30 else 31)"

definition read_date :: "string \<Rightarrow> date option" where
  "read_date s =
     (if length s = 10 \<and> s ! 4 = CHR ''-'' \<and> s ! 7 = CHR ''-'' then
        (case read_nat (take 4 s) of
           None \<Rightarrow> None
         | Some y \<Rightarrow>
             (case read_nat (take 2 (drop 5 s)) of
                None \<Rightarrow> None
              | Some m \<Rightarrow>
                  (case read_nat (drop 8 s) of
                     None \<Rightarrow> None
                   | Some d \<Rightarrow>
                       if 1 \<le> y \<and> 1 \<le> m \<and> m \<le> 12 \<and> 1 \<le> d \<and> d \<le> days_in_month y m
                       then Some \<lparr>year = y, month = m, day = d\<rparr> else None)))
      else None)"

definition read_decimal :: "string \<Rightarrow> rat option" where
  "read_decimal s =
     (case dropWhile (\<lambda>c. c \<noteq> CHR ''.'') s of
        [] \<Rightarrow> map_option of_nat (read_nat s)
      | point # fraction \<Rightarrow>
          (case read_nat (takeWhile (\<lambda>c. c \<noteq> CHR ''.'') s) of
             None \<Rightarrow> None
           | Some i \<Rightarrow>
               (case read_nat fraction of
                  None \<Rightarrow> None
                | Some f \<Rightarrow> Some (of_nat i + of_nat f / 10 ^ length fraction))))"

fun fraction_digits :: "nat \<Rightarrow> rat \<Rightarrow> string" where
  "fraction_digits 0 f = []"
| "fraction_digits (Suc n) f =
     (if f = 0 then []
      else digit_char (nat \<lfloor>f * 10\<rfloor>) # fraction_digits n (f * 10 - of_int \<lfloor>f * 10\<rfloor>))"

definition print_float :: "pyfloat \<Rightarrow> string" where
  "print_float x =
     (case x of
        Finite r \<Rightarrow>
          (let ds = fraction_digits 17 (\<bar>r\<bar> - of_int \<lfloor>\<bar>r\<bar>\<rfloor>)
           in (if r < 0 then ''-'' else []) @ str_nat (nat \<lfloor>\<bar>r\<bar>\<rfloor>) @ ''.''
                @ (if ds = [] then ''0'' else ds))
      | PosInf \<Rightarrow> ''inf''
      | NegInf \<Rightarrow> ''-inf''
      | NaN \<Rightarrow> ''nan'')"

definition example_lib :: pylib where
  "example_lib =
     \<lparr>py_int = (\<lambda>s. map_option int (read_nat s)),
      py_float = (\<lambda>s. map_option Finite (read_decimal s)),
      strptime = read_date,
      str_float = print_float\<rparr>"

text \<open>
  The form of the repository's tests: \<^verbatim>\<open>fecha\<close>, \<^verbatim>\<open>finca_id\<close>, \<^verbatim>\<open>lote_id\<close>,
  \<^verbatim>\<open>mezcla_id\<close> and \<^verbatim>\<open>manzanas\<close>, and no query string.
\<close>

definition post_form :: "string \<Rightarrow> string \<Rightarrow> string \<Rightarrow> string \<Rightarrow> string \<Rightarrow> request" where
  "post_form fecha finca_id lote_id mezcla area =
     \<lparr>form = [''fecha'' \<mapsto> fecha, ''finca_id'' \<mapsto> finca_id, ''lote_id'' \<mapsto> lote_id,
              ''mezcla_id'' \<mapsto> mezcla, ''manzanas'' \<mapsto> area],
      args = Map.empty\<rparr>"

text \<open>The same form without the \<^verbatim>\<open>manzanas\<close> field.\<close>

definition post_form_sin_manzanas :: "string \<Rightarrow> string \<Rightarrow> string \<Rightarrow> string \<Rightarrow> request" where
  "post_form_sin_manzanas fecha finca_id lote_id mezcla =
     \<lparr>form = [''fecha'' \<mapsto> fecha, ''finca_id'' \<mapsto> finca_id, ''lote_id'' \<mapsto> lote_id,
              ''mezcla_id'' \<mapsto> mezcla],
      args = Map.empty\<rparr>"

text \<open>A store with one farm and one plot, and no mixture yet.\<close>

definition una_finca :: database where
  "una_finca =
     \<lparr>fincas = Some [\<lparr>f_id = 1, f_nombre = ''Finca 1'', f_area_total = 70\<rparr>],
      lotes = Some [\<lparr>l_id = 1, l_finca_id = 1, l_nombre = ''Lote 1'', l_area_total = 10\<rparr>],
      mezclas = Some [], mezcla_productos = Some [], aplicaciones = Some []\<rparr>"

section \<open>Basic facts\<close>

lemma bind_exc_Inl [simp]: "bind_exc (Inl e) k = Inl e"
  by (simp add: bind_exc_def)

lemma bind_exc_Inr [simp]: "bind_exc (Inr x) k = k x"
  by (simp add: bind_exc_def)

lemma table_None [simp]: "table None = Inl OperationalError"
  by (simp add: table_def)

lemma table_Some [simp]: "table (Some rows) = Inr rows"
  by (simp add: table_def)

lemma bind_exc_eq_Inr:
  "bind_exc r k = Inr y \<longleftrightarrow> (\<exists>x. r = Inr x \<and> k x = Inr y)"
  by (cases r) simp_all

lemma seed_fincas_fst_nonempty:
  "ns \<noteq> [] \<or> fs \<noteq> [] \<Longrightarrow> fst (seed_fincas ns (fs, ls)) \<noteq> []"
  by (induction ns arbitrary: fs ls) (simp_all add: Let_def)

lemma seed_mezclas_fst_nonempty: "fst (seed_mezclas (ms, mps)) \<noteq> []"
  by (simp add: seed_mezclas_def Let_def)

lemma seed_fincas_nonempty:
  "seed_fincas ns (fs, ls) = ([], ls') \<Longrightarrow> ns = [] \<and> fs = []"
  using seed_fincas_fst_nonempty [of ns fs ls] by auto

lemma seed_mezclas_nonempty: "seed_mezclas (ms, mps) = (ms', mps') \<Longrightarrow> ms' \<noteq> []"
  using seed_mezclas_fst_nonempty [of ms mps] by simp

lemma init_db_fincas:
  "\<exists>fs. fincas (init_db db) = Some fs \<and> fs \<noteq> []"
  by (auto simp: init_db_def Let_def split: prod.splits if_splits dest: seed_fincas_nonempty)

lemma init_db_mezclas:
  "\<exists>ms. mezclas (init_db db) = Some ms \<and> ms \<noteq> []"
  by (auto simp: init_db_def Let_def split: prod.splits if_splits dest: seed_mezclas_nonempty)

lemma init_db_lotes: "\<exists>ls. lotes (init_db db) = Some ls"
  by (simp add: init_db_def Let_def split: prod.splits)

lemma init_db_mezcla_productos: "\<exists>mps. mezcla_productos (init_db db) = Some mps"
  by (simp add: init_db_def Let_def split: prod.splits)

lemma init_db_aplicaciones:
  "aplicaciones (init_db db) = Some (create_table_if_not_exists (aplicaciones db))"
  by (simp add: init_db_def Let_def split: prod.splits)

lemma init_db_noop:
  assumes "fincas db = Some fs" "fs \<noteq> []" "mezclas db = Some ms" "ms \<noteq> []"
    and "lotes db = Some ls" "mezcla_productos db = Some mps" "aplicaciones db = Some aps"
  shows "init_db db = db"
  using assms by (simp add: init_db_def create_table_if_not_exists_def)

lemma init_db_idem: "init_db (init_db db) = init_db db"
proof -
  obtain fs where fs: "fincas (init_db db) = Some fs" "fs \<noteq> []"
    using init_db_fincas by blast
  obtain ms where ms: "mezclas (init_db db) = Some ms" "ms \<noteq> []"
    using init_db_mezclas by blast
  obtain ls where ls: "lotes (init_db db) = Some ls"
    using init_db_lotes by blast
  obtain mps where mps: "mezcla_productos (init_db db) = Some mps"
    using init_db_mezcla_productos by blast
  show ?thesis
    by (rule init_db_noop [OF fs ms ls mps init_db_aplicaciones])
qed

subsection \<open>Plot status\<close>

lemma lote_estado_tables:
  assumes "lotes db = Some ls" "aplicaciones db = Some aps"
  shows "lote_estado db i =
    Inr (case filter (\<lambda>l. l_id l = i) ls of
           [] \<Rightarrow> None
         | l # _ \<Rightarrow>
             Some \<lparr>area_total = l_area_total l, aplicadas = aplicadas_lote aps i,
                   restante = l_area_total l - aplicadas_lote aps i\<rparr>)"
proof (cases "filter (\<lambda>l. l_id l = i) ls")
  case Nil
  then show ?thesis using assms by (simp add: lote_estado_def)
next
  case (Cons l rest)
  then have "l \<in> set (filter (\<lambda>l. l_id l = i) ls)" by simp
  then have "l_id l = i" by simp
  with Cons show ?thesis using assms by (simp add: lote_estado_def)
qed

lemma lote_estado_Some:
  assumes "lote_estado db i = Inr (Some e)"
  shows "\<exists>ls aps l rest. lotes db = Some ls \<and> aplicaciones db = Some aps
    \<and> filter (\<lambda>l. l_id l = i) ls = l # rest
    \<and> e = \<lparr>area_total = l_area_total l, aplicadas = aplicadas_lote aps i,
            restante = l_area_total l - aplicadas_lote aps i\<rparr>"
proof -
  from assms obtain ls where ls: "lotes db = Some ls"
    by (cases "lotes db") (simp_all add: lote_estado_def)
  from assms ls obtain aps where aps: "aplicaciones db = Some aps"
    by (cases "aplicaciones db") (simp_all add: lote_estado_def)
  from assms show ?thesis
    unfolding lote_estado_tables [OF ls aps] using ls aps
    by (auto split: list.splits)
qed

lemma lote_estado_unknown:
  assumes "lotes db = Some ls" "aplicaciones db = Some aps" "i \<notin> l_id ` set ls"
  shows "lote_estado db i = Inr None"
proof -
  from assms(3) have "filter (\<lambda>l. l_id l = i) ls = []"
    by (auto simp: filter_empty_conv)
  then show ?thesis by (simp add: lote_estado_tables [OF assms(1,2)])
qed

lemma lote_estado_known:
  assumes "lotes db = Some ls" "aplicaciones db = Some aps" "i \<in> l_id ` set ls"
  shows "\<exists>l \<in> set ls. l_id l = i \<and> lote_estado db i =
    Inr (Some \<lparr>area_total = l_area_total l, aplicadas = aplicadas_lote aps i,
               restante = l_area_total l - aplicadas_lote aps i\<rparr>)"
proof -
  from assms(3) have "filter (\<lambda>l. l_id l = i) ls \<noteq> []"
    by (auto simp: filter_empty_conv)
  then obtain l rest where f: "filter (\<lambda>l. l_id l = i) ls = l # rest"
    by (cases "filter (\<lambda>l. l_id l = i) ls") auto
  then have "l \<in> set (filter (\<lambda>l. l_id l = i) ls)" by simp
  then have "l \<in> set ls" "l_id l = i" by simp_all
  then show ?thesis using f by (auto simp: lote_estado_tables [OF assms(1,2)])
qed




subsection \<open>The recorder\<close>

lemma le_zero_Finite_iff: "\<not> le_zero m \<and> \<not> greater m r \<Longrightarrow> m = NaN \<or> (\<exists>x. m = Finite x \<and> 0 < x \<and> x \<le> r)"
  by (cases m) auto

lemma index_post_record_fecha:
  "strptime L (fecha_raw fl) = None \<Longrightarrow>
   index_post_record L db fl =
     Inr (db, flash_redirect msg_fecha ''error'' (selected_finca_id fl) (selected_lote_id fl))"
  by (simp add: index_post_record_def)

lemma index_post_record_manzanas:
  "strptime L (fecha_raw fl) = Some d \<Longrightarrow> lote_estado db (selected_lote_id fl) = Inr (Some e) \<Longrightarrow>
   le_zero (manzanas fl) \<Longrightarrow>
   index_post_record L db fl =
     Inr (db, flash_redirect msg_manzanas ''error'' (selected_finca_id fl) (selected_lote_id fl))"
  by (simp add: index_post_record_def)

lemma index_post_record_excede:
  "strptime L (fecha_raw fl) = Some d \<Longrightarrow> lote_estado db (selected_lote_id fl) = Inr (Some e) \<Longrightarrow>
   \<not> le_zero (manzanas fl) \<Longrightarrow> greater (manzanas fl) (restante e) \<Longrightarrow>
   index_post_record L db fl =
     Inr (db, flash_redirect (msg_excede L (manzanas fl) (restante e)) ''error''
                (selected_finca_id fl) (selected_lote_id fl))"
  by (simp add: index_post_record_def)

lemma index_post_record_guardada:
  "strptime L (fecha_raw fl) = Some d \<Longrightarrow> lote_estado db (selected_lote_id fl) = Inr (Some e) \<Longrightarrow>
   manzanas fl = Finite x \<Longrightarrow> 0 < x \<Longrightarrow> x \<le> restante e \<Longrightarrow> aplicaciones db = Some aps \<Longrightarrow>
   index_post_record L db fl =
     Inr (db\<lparr>aplicaciones := Some (aps @ [nueva_aplicacion aps d fl x])\<rparr>,
          flash_redirect msg_guardada ''success'' (selected_finca_id fl) (selected_lote_id fl))"
  by (simp add: index_post_record_def insert_aplicacion_def nueva_aplicacion_def)

lemma index_post_record_Inr:
  assumes "index_post_record L db fl = Inr (db', r)"
  shows "(db' = db \<and> flash_category r = ''error'')
    \<or> (\<exists>d e x aps. strptime L (fecha_raw fl) = Some d
          \<and> lote_estado db (selected_lote_id fl) = Inr (Some e)
          \<and> manzanas fl = Finite x \<and> 0 < x \<and> x \<le> restante e
          \<and> aplicaciones db = Some aps
          \<and> db' = db\<lparr>aplicaciones := Some (aps @ [nueva_aplicacion aps d fl x])\<rparr>
          \<and> r = flash_redirect msg_guardada ''success''
                  (selected_finca_id fl) (selected_lote_id fl))"
proof (cases "strptime L (fecha_raw fl)")
  case None
  with assms show ?thesis
    by (auto simp: index_post_record_fecha flash_redirect_def)
next
  case (Some d)
  show ?thesis
  proof (cases "lote_estado db (selected_lote_id fl)")
    case (Inl err)
    with Some assms show ?thesis by (simp add: index_post_record_def)
  next
    case (Inr row)
    show ?thesis
    proof (cases row)
      case None
      with Some Inr assms show ?thesis by (simp add: index_post_record_def)
    next
      case (Some e)
      note est = Inr [unfolded Some]
      from lote_estado_Some [OF est] obtain aps where aps: "aplicaciones db = Some aps"
        by blast
      consider "le_zero (manzanas fl)"
        | "\<not> le_zero (manzanas fl)" "greater (manzanas fl) (restante e)"
        | "manzanas fl = NaN"
        | x where "manzanas fl = Finite x" "0 < x" "x \<le> restante e"
        using le_zero_Finite_iff [of "manzanas fl" "restante e"] by blast
      then show ?thesis
      proof cases
        case 1
        from index_post_record_manzanas [OF \<open>strptime L (fecha_raw fl) = Some d\<close> est 1] assms
        show ?thesis by (auto simp: flash_redirect_def)
      next
        case 2
        from index_post_record_excede [OF \<open>strptime L (fecha_raw fl) = Some d\<close> est 2] assms
        show ?thesis by (auto simp: flash_redirect_def)
      next
        case 3
        with \<open>strptime L (fecha_raw fl) = Some d\<close> est aps assms show ?thesis
          by (simp add: index_post_record_def insert_aplicacion_def)
      next
        case 4
        from index_post_record_guardada [OF \<open>strptime L (fecha_raw fl) = Some d\<close> est 4 aps] assms
        have "db' = db\<lparr>aplicaciones := Some (aps @ [nueva_aplicacion aps d fl x])\<rparr>"
          and "r = flash_redirect msg_guardada ''success''
                  (selected_finca_id fl) (selected_lote_id fl)"
          by simp_all
        with \<open>strptime L (fecha_raw fl) = Some d\<close> est 4 aps show ?thesis by blast
      qed
    qed
  qed
qed

lemma index_post_fields_ok:
  "index_post_fields L db req = Inr fl \<Longrightarrow>
   index_post L db req =
     (case index_post_record L db fl of Inl e \<Rightarrow> (db, Inl e) | Inr (db', r) \<Rightarrow> (db', Inr r))"
  by (simp add: index_post_def)

lemma index_post_fields_error:
  "index_post_fields L db req = Inl e \<Longrightarrow> index_post L db req = (db, Inl e)"
  by (simp add: index_post_def)

lemma index_post_store:
  assumes "index_post L db req = (db', out)"
  shows "db' = db
    \<or> (\<exists>fl d e x aps. index_post_fields L db req = Inr fl
          \<and> strptime L (fecha_raw fl) = Some d
          \<and> lote_estado db (selected_lote_id fl) = Inr (Some e)
          \<and> manzanas fl = Finite x \<and> 0 < x \<and> x \<le> restante e
          \<and> aplicaciones db = Some aps
          \<and> db' = db\<lparr>aplicaciones := Some (aps @ [nueva_aplicacion aps d fl x])\<rparr>
          \<and> out = Inr (flash_redirect msg_guardada ''success''
                  (selected_finca_id fl) (selected_lote_id fl)))"
proof (cases "index_post_fields L db req")
  case (Inl e)
  with assms show ?thesis by (simp add: index_post_fields_error)
next
  case (Inr fl)
  show ?thesis
  proof (cases "index_post_record L db fl")
    case (Inl e)
    with Inr assms show ?thesis by (simp add: index_post_fields_ok)
  next
    case rec: (Inr p)
    obtain db1 r where p: "p = (db1, r)" by (cases p)
    from rec p Inr assms have eq: "db' = db1" "out = Inr r"
      by (simp_all add: index_post_fields_ok)
    from index_post_record_Inr [OF rec [unfolded p]] eq Inr show ?thesis
      by auto
  qed
qed

lemma index_post_fields_Inr:
  assumes "index_post_fields L db req = Inr fl"
  shows "\<exists>fs ms ls. fincas db = Some fs \<and> mezclas db = Some ms \<and> lotes db = Some ls
    \<and> selected_id L req ''finca_id'' (map f_id (sort_key f_id fs)) = Inr (selected_finca_id fl)
    \<and> selected_id L req ''lote_id''
         (map l_id (sort_key l_id (filter (\<lambda>l. l_finca_id l = selected_finca_id fl) ls)))
       = Inr (selected_lote_id fl)
    \<and> (\<exists>s. form req ''mezcla_id'' = Some s \<and> py_int L s = Some (mezcla_id fl))
    \<and> (case truthy (form req ''manzanas'') of
          None \<Rightarrow> manzanas fl = Finite 0
        | Some s \<Rightarrow> py_float L s = Some (manzanas fl))
    \<and> fecha_raw fl = (case form req ''fecha'' of None \<Rightarrow> [] | Some s \<Rightarrow> s)"
  using assms
  by (auto simp: index_post_fields_def bind_exc_eq_Inr to_int_def to_float_def table_def
      split: option.splits)

lemma truthy_None_iff: "truthy v = None \<longleftrightarrow> v = None \<or> v = Some []"
  by (simp add: truthy_def split: option.splits)

lemma to_int_py_float: "to_int (L\<lparr>py_float := g\<rparr>) s = to_int L s"
  by (simp add: to_int_def)

lemma selected_id_py_float:
  "selected_id (L\<lparr>py_float := g\<rparr>) req k ids = selected_id L req k ids"
  by (simp add: selected_id_def to_int_py_float split: option.splits)

lemma selected_id_form_manzanas:
  "k \<noteq> ''manzanas'' \<Longrightarrow>
   selected_id L (req\<lparr>form := (form req)(''manzanas'' \<mapsto> s)\<rparr>) k ids = selected_id L req k ids"
  by (simp add: selected_id_def split: option.splits)

lemma truthy_Some: "s \<noteq> [] \<Longrightarrow> truthy (Some s) = Some s"
  by (simp add: truthy_def)

lemma index_post_fields_sin_manzanas:
  assumes "truthy (form req ''manzanas'') = None"
  shows "index_post_fields (L\<lparr>py_float := g\<rparr>) db req = index_post_fields L db req"
    and "s \<noteq> [] \<Longrightarrow> py_float L s = Some (Finite 0) \<Longrightarrow>
         index_post_fields L db (req\<lparr>form := (form req)(''manzanas'' \<mapsto> s)\<rparr>)
           = index_post_fields L db req"
  using assms
  by (simp_all add: index_post_fields_def selected_id_py_float to_int_py_float
      selected_id_form_manzanas truthy_Some to_float_def cong: option.case_cong)

lemma index_post_record_py_float:
  "index_post_record (L\<lparr>py_float := g\<rparr>) db fl = index_post_record L db fl"
  by (simp add: index_post_record_def msg_excede_def bind_exc_def
      split: option.splits sum.splits)

text \<open>
  Claim C2, as amended.  For a request whose fields parse (the ids and \<^verbatim>\<open>mezcla_id\<close> are
  integers, \<^verbatim>\<open>manzanas\<close> is absent, empty or a float), the checks run in a fixed order and
  the first failure wins: an unparseable date is answered with the date message whatever
  the area and the plot are; with a date that parses and a plot that exists, an area that is
  not positive is answered with the area message; otherwise an area greater than the
  remaining area is answered with the message of the exceeded area.  Each of these leaves
  the store as it was, and so does every outcome of every request (raised exceptions
  included) other than the success message.
\<close>

theorem validation_order:
  "(\<forall>fl. index_post_fields L db req = Inr fl \<longrightarrow>
      (strptime L (fecha_raw fl) = None \<longrightarrow>
         index_post L db req =
           (db, Inr (flash_redirect msg_fecha ''error''
                       (selected_finca_id fl) (selected_lote_id fl))))
      \<and> (\<forall>d e. strptime L (fecha_raw fl) = Some d
               \<and> lote_estado db (selected_lote_id fl) = Inr (Some e) \<longrightarrow>
            (le_zero (manzanas fl) \<longrightarrow>
               index_post L db req =
                 (db, Inr (flash_redirect msg_manzanas ''error''
                             (selected_finca_id fl) (selected_lote_id fl))))
            \<and> (\<not> le_zero (manzanas fl) \<and> greater (manzanas fl) (restante e) \<longrightarrow>
                 index_post L db req =
                   (db, Inr (flash_redirect (msg_excede L (manzanas fl) (restante e)) ''error''
                               (selected_finca_id fl) (selected_lote_id fl))))))
   \<and> (\<forall>db' out. index_post L db req = (db', out) \<longrightarrow>
        db' = db
        \<or> (\<exists>i j. out = Inr (flash_redirect msg_guardada ''success'' i j)))"
proof (intro conjI allI impI)
  fix fl
  assume "index_post_fields L db req = Inr fl" "strptime L (fecha_raw fl) = None"
  then show "index_post L db req =
           (db, Inr (flash_redirect msg_fecha ''error''
                       (selected_finca_id fl) (selected_lote_id fl)))"
    by (simp add: index_post_fields_ok index_post_record_fecha)
next
  fix fl d e
  assume "index_post_fields L db req = Inr fl"
    "strptime L (fecha_raw fl) = Some d \<and> lote_estado db (selected_lote_id fl) = Inr (Some e)"
    "le_zero (manzanas fl)"
  then show "index_post L db req =
                 (db, Inr (flash_redirect msg_manzanas ''error''
                             (selected_finca_id fl) (selected_lote_id fl)))"
    by (simp add: index_post_fields_ok index_post_record_manzanas)
next
  fix fl d e
  assume "index_post_fields L db req = Inr fl"
    "strptime L (fecha_raw fl) = Some d \<and> lote_estado db (selected_lote_id fl) = Inr (Some e)"
    "\<not> le_zero (manzanas fl) \<and> greater (manzanas fl) (restante e)"
  then show "index_post L db req =
                   (db, Inr (flash_redirect (msg_excede L (manzanas fl) (restante e)) ''error''
                               (selected_finca_id fl) (selected_lote_id fl)))"
    by (simp add: index_post_fields_ok index_post_record_excede)
next
  fix db' out
  assume "index_post L db req = (db', out)"
  from index_post_store [OF this]
  show "db' = db \<or> (\<exists>i j. out = Inr (flash_redirect msg_guardada ''success'' i j))"
    by blast
qed

text \<open>
  Claim C2 as stated fails, in two ways.  With an unparseable date and an area that is not
  a number, \<^verbatim>\<open>float(...)\<close> raises \<^verbatim>\<open>ValueError\<close> before the date is looked at.  With a valid
  date, the area 0 and a plot id no plot has, the status of the plot is read before the area
  is checked and subscripting its \<open>None\<close> raises \<^verbatim>\<open>TypeError\<close>.
\<close>

theorem validation_order_counterexample:
  "strptime example_lib ''ayer'' = None
   \<and> snd (post_request example_lib new_database (post_form ''ayer'' ''1'' ''1'' ''1'' ''abc''))
       = Inl ValueError
   \<and> strptime example_lib ''2026-01-10'' = Some \<lparr>year = 2026, month = 1, day = 10\<rparr>
   \<and> py_float example_lib ''0'' = Some (Finite 0)
   \<and> snd (post_request example_lib new_database
             (post_form ''2026-01-10'' ''1'' ''999'' ''1'' ''0''))
       = Inl TypeError"
  by code_simp

theorem validation_order_witness:
  "index_post example_lib una_finca (post_form ''ayer'' ''1'' ''1'' ''1'' ''0'')
     = (una_finca, Inr (flash_redirect msg_fecha ''error'' 1 1))
   \<and> index_post example_lib una_finca (post_form ''2026-01-10'' ''1'' ''1'' ''1'' ''0'')
       = (una_finca, Inr (flash_redirect msg_manzanas ''error'' 1 1))
   \<and> index_post example_lib una_finca (post_form ''2026-01-10'' ''1'' ''1'' ''1'' ''11'')
       = (una_finca,
          Inr (flash_redirect (msg_excede example_lib (Finite 11) 10) ''error'' 1 1))"
proof -
  let ?r1 = "post_form ''ayer'' ''1'' ''1'' ''1'' ''0''"
  let ?r2 = "post_form ''2026-01-10'' ''1'' ''1'' ''1'' ''0''"
  let ?r3 = "post_form ''2026-01-10'' ''1'' ''1'' ''1'' ''11''"
  have f1: "index_post_fields example_lib una_finca ?r1 =
      Inr \<lparr>selected_finca_id = 1, selected_lote_id = 1, fecha_raw = ''ayer'',
           mezcla_id = 1, manzanas = Finite 0\<rparr>"
    by code_simp
  have f2: "index_post_fields example_lib una_finca ?r2 =
      Inr \<lparr>selected_finca_id = 1, selected_lote_id = 1, fecha_raw = ''2026-01-10'',
           mezcla_id = 1, manzanas = Finite 0\<rparr>"
    by code_simp
  have f3: "index_post_fields example_lib una_finca ?r3 =
      Inr \<lparr>selected_finca_id = 1, selected_lote_id = 1, fecha_raw = ''2026-01-10'',
           mezcla_id = 1, manzanas = Finite 11\<rparr>"
    by code_simp
  have d1: "strptime example_lib ''ayer'' = None"
    by code_simp
  have d2: "strptime example_lib ''2026-01-10'' = Some \<lparr>year = 2026, month = 1, day = 10\<rparr>"
    by code_simp
  have e: "lote_estado una_finca 1 = Inr (Some \<lparr>area_total = 10, aplicadas = 0, restante = 10\<rparr>)"
    by code_simp
  from validation_order [of example_lib una_finca ?r1] f1 d1
  have "index_post example_lib una_finca ?r1
     = (una_finca, Inr (flash_redirect msg_fecha ''error'' 1 1))"
    by simp
  moreover from validation_order [of example_lib una_finca ?r2] f2 d2 e
  have "index_post example_lib una_finca ?r2
     = (una_finca, Inr (flash_redirect msg_manzanas ''error'' 1 1))"
    by simp
  moreover from validation_order [of example_lib una_finca ?r3] f3 d2 e
  have "index_post example_lib una_finca ?r3
       = (una_finca,
          Inr (flash_redirect (msg_excede example_lib (Finite 11) 10) ''error'' 1 1))"
    by simp
  ultimately show ?thesis by simp
qed

text \<open>
  Claim C10.  When the \<^verbatim>\<open>manzanas\<close> field is absent or empty the area is the number 0:
  \<^verbatim>\<open>float\<close> is not called (the outcome is the same whatever \<^verbatim>\<open>float\<close> would do, so no
  parse error comes from the area), the outcome is that of a form whose field reads as 0,
  the store is unchanged, and once the date parses and the plot exists the answer is
  the message \<^verbatim>\<open>Las manzanas aplicadas deben ser mayores que 0.\<close>
\<close>

theorem manzanas_absent_is_zero:
  assumes "form req ''manzanas'' = None \<or> form req ''manzanas'' = Some []"
  shows "(\<forall>fl. index_post_fields L db req = Inr fl \<longrightarrow>
            manzanas fl = Finite 0
            \<and> (\<forall>d e. strptime L (fecha_raw fl) = Some d
                    \<and> lote_estado db (selected_lote_id fl) = Inr (Some e) \<longrightarrow>
                 index_post L db req =
                   (db, Inr (flash_redirect msg_manzanas ''error''
                               (selected_finca_id fl) (selected_lote_id fl)))))
    \<and> fst (index_post L db req) = db
    \<and> (\<forall>g. index_post (L\<lparr>py_float := g\<rparr>) db req = index_post L db req)
    \<and> (\<forall>s. s \<noteq> [] \<and> py_float L s = Some (Finite 0) \<longrightarrow>
          index_post L db (req\<lparr>form := (form req)(''manzanas'' \<mapsto> s)\<rparr>) = index_post L db req)"
proof -
  from assms have t: "truthy (form req ''manzanas'') = None"
    by (simp add: truthy_None_iff)
  have zero: "manzanas fl = Finite 0" if "index_post_fields L db req = Inr fl" for fl
    using index_post_fields_Inr [OF that] t by auto
  have a: "index_post L db req =
                   (db, Inr (flash_redirect msg_manzanas ''error''
                               (selected_finca_id fl) (selected_lote_id fl)))"
    if "index_post_fields L db req = Inr fl" "strptime L (fecha_raw fl) = Some d"
      "lote_estado db (selected_lote_id fl) = Inr (Some e)" for fl d e
    using that zero [OF that(1)]
    by (simp add: index_post_fields_ok index_post_record_manzanas)
  have b: "fst (index_post L db req) = db"
  proof -
    obtain db' out where r: "index_post L db req = (db', out)"
      by (cases "index_post L db req")
    from index_post_store [OF r] show ?thesis
    proof
      assume "db' = db" with r show ?thesis by simp
    next
      assume "\<exists>fl d e x aps. index_post_fields L db req = Inr fl
          \<and> strptime L (fecha_raw fl) = Some d
          \<and> lote_estado db (selected_lote_id fl) = Inr (Some e)
          \<and> manzanas fl = Finite x \<and> 0 < x \<and> x \<le> restante e
          \<and> aplicaciones db = Some aps
          \<and> db' = db\<lparr>aplicaciones := Some (aps @ [nueva_aplicacion aps d fl x])\<rparr>
          \<and> out = Inr (flash_redirect msg_guardada ''success''
                  (selected_finca_id fl) (selected_lote_id fl))"
      then obtain fl x where "index_post_fields L db req = Inr fl" "manzanas fl = Finite x" "0 < x"
        by blast
      with zero [of fl] show ?thesis by simp
    qed
  qed
  have c: "index_post (L\<lparr>py_float := g\<rparr>) db req = index_post L db req" for g
    unfolding index_post_def index_post_fields_sin_manzanas(1) [OF t]
    by (simp add: index_post_record_py_float [abs_def])
  have d: "index_post L db (req\<lparr>form := (form req)(''manzanas'' \<mapsto> s)\<rparr>) = index_post L db req"
    if "s \<noteq> []" "py_float L s = Some (Finite 0)" for s
    unfolding index_post_def index_post_fields_sin_manzanas(2) [OF t that] ..
  from zero a b c d show ?thesis by blast
qed

theorem manzanas_absent_is_zero_witness:
  "(form (post_form_sin_manzanas ''2026-01-10'' ''1'' ''1'' ''1'') ''manzanas'' = None
    \<or> form (post_form_sin_manzanas ''2026-01-10'' ''1'' ''1'' ''1'') ''manzanas'' = Some [])
   \<and> index_post example_lib una_finca (post_form_sin_manzanas ''2026-01-10'' ''1'' ''1'' ''1'')
       = (una_finca, Inr (flash_redirect msg_manzanas ''error'' 1 1))"
proof -
  let ?req = "post_form_sin_manzanas ''2026-01-10'' ''1'' ''1'' ''1''"
  have h: "form ?req ''manzanas'' = None \<or> form ?req ''manzanas'' = Some []"
    by (simp add: post_form_sin_manzanas_def)
  have f: "index_post_fields example_lib una_finca ?req =
      Inr \<lparr>selected_finca_id = 1, selected_lote_id = 1, fecha_raw = ''2026-01-10'',
           mezcla_id = 1, manzanas = Finite 0\<rparr>"
    by code_simp
  have d: "strptime example_lib ''2026-01-10'' = Some \<lparr>year = 2026, month = 1, day = 10\<rparr>"
    by code_simp
  have e: "lote_estado una_finca 1 = Inr (Some \<lparr>area_total = 10, aplicadas = 0, restante = 10\<rparr>)"
    by code_simp
  from manzanas_absent_is_zero [OF h, of example_lib una_finca] f d e h
  show ?thesis by simp
qed

subsection \<open>Two decimals\<close>

lemma digit_char_0: "digit_char 0 = CHR ''0''"
  by code_simp

lemma str_nat_small: "n < 10 \<Longrightarrow> str_nat n = [digit_char n]"
  by (simp add: str_nat.simps)

lemma str_nat_two: "10 \<le> n \<Longrightarrow> n < 100 \<Longrightarrow> str_nat n = [digit_char (n div 10), digit_char (n mod 10)]"
  by (subst str_nat.simps) (simp add: str_nat_small)

lemma zero_pad_two:
  assumes "n < 100"
  shows "zero_pad 2 (str_nat n) = [digit_char (n div 10), digit_char (n mod 10)]"
proof (cases "n < 10")
  case True
  then show ?thesis by (simp add: str_nat_small zero_pad_def digit_char_0)
next
  case False
  with assms show ?thesis by (simp add: str_nat_two zero_pad_def)
qed

lemma round_half_even_near: "\<bar>of_int (round_half_even y) - y\<bar> \<le> 1 / 2"
proof -
  have "of_int \<lfloor>y\<rfloor> \<le> y" "y < of_int \<lfloor>y\<rfloor> + 1"
    by linarith+
  then show ?thesis
    by (auto simp: round_half_even_def Let_def)
qed

lemma format_2f_shape:
  "\<exists>n. \<bar>of_nat n - \<bar>r\<bar> * 100\<bar> \<le> 1 / 2
     \<and> format_2f r =
         (if r < 0 then ''-'' else []) @ str_nat (n div 100) @ ''.''
           @ [digit_char (n mod 100 div 10), digit_char (n mod 10)]"
proof -
  let ?k = "round_half_even (\<bar>r\<bar> * 100)"
  have near: "\<bar>of_int ?k - \<bar>r\<bar> * 100\<bar> \<le> 1 / 2"
    by (rule round_half_even_near)
  have "(0::rat) \<le> \<bar>r\<bar> * 100" by simp
  with near have "- (1 / 2) \<le> (of_int ?k :: rat)" by linarith
  then have "(-1 :: rat) < of_int ?k" by linarith
  then have "-1 < ?k" by (metis of_int_less_iff of_int_minus of_int_1)
  then have k: "0 \<le> ?k" by linarith
  then have "(of_nat (nat ?k) :: rat) = of_int ?k" by simp
  with near have "\<bar>of_nat (nat ?k) - \<bar>r\<bar> * 100\<bar> \<le> 1 / 2" by simp
  moreover have "format_2f r =
         (if r < 0 then ''-'' else []) @ str_nat (nat ?k div 100) @ ''.''
           @ [digit_char (nat ?k mod 100 div 10), digit_char (nat ?k mod 10)]"
    by (simp add: format_2f_def Let_def zero_pad_two mod_mod_cancel)
  ultimately show ?thesis by blast
qed

lemma msg_excede_text:
  "msg_excede L m r =
     ''No se pueden aplicar '' @ str_float L m @ '' manzanas. Solo faltan ''
       @ format_2f r @ '' en este lote.''"
  by (simp add: msg_excede_def)

lemma format_2f_10: "format_2f 10 = ''10.00''"
  by code_simp

lemma lote_estado_seed_1:
  "lote_estado (init_db new_database) 1 =
     Inr (Some \<lparr>area_total = 10, aplicadas = 0, restante = 10\<rparr>)"
  by code_simp

text \<open>
  Claim C6.  A recording refused because its area exceeds the remaining area is answered
  with exactly \<^verbatim>\<open>No se pueden aplicar {area} manzanas. Solo faltan {remaining:.2f} en este
  lote.\<close>; the remaining area is printed with two decimals, from the value rounded to the
  nearest hundredth; and on the seeded store the area 11 on plot 1 is refused with
  \<^verbatim>\<open>Solo faltan 10.00 en este lote.\<close>
\<close>

theorem mensaje_excede:
  "(\<forall>d e. strptime L (fecha_raw fl) = Some d
         \<and> lote_estado db (selected_lote_id fl) = Inr (Some e)
         \<and> \<not> le_zero (manzanas fl) \<and> greater (manzanas fl) (restante e) \<longrightarrow>
      index_post_record L db fl =
        Inr (db, flash_redirect
                   (''No se pueden aplicar '' @ str_float L (manzanas fl)
                      @ '' manzanas. Solo faltan '' @ format_2f (restante e)
                      @ '' en este lote.'')
                   ''error'' (selected_finca_id fl) (selected_lote_id fl)))
   \<and> (\<forall>r. \<exists>n. \<bar>of_nat n - \<bar>r\<bar> * 100\<bar> \<le> 1 / 2
          \<and> format_2f r =
              (if r < 0 then ''-'' else []) @ str_nat (n div 100) @ ''.''
                @ [digit_char (n mod 100 div 10), digit_char (n mod 10)])
   \<and> (\<forall>d. strptime L (fecha_raw fl) = Some d \<and> selected_lote_id fl = 1
          \<and> manzanas fl = Finite 11 \<longrightarrow>
        index_post_record L (init_db new_database) fl =
          Inr (init_db new_database,
               flash_redirect
                 (''No se pueden aplicar '' @ str_float L (Finite 11)
                    @ '' manzanas. Solo faltan 10.00 en este lote.'')
                 ''error'' (selected_finca_id fl) 1))"
proof (intro conjI allI impI)
  fix d e
  assume "strptime L (fecha_raw fl) = Some d
         \<and> lote_estado db (selected_lote_id fl) = Inr (Some e)
         \<and> \<not> le_zero (manzanas fl) \<and> greater (manzanas fl) (restante e)"
  then show "index_post_record L db fl =
        Inr (db, flash_redirect
                   (''No se pueden aplicar '' @ str_float L (manzanas fl)
                      @ '' manzanas. Solo faltan '' @ format_2f (restante e)
                      @ '' en este lote.'')
                   ''error'' (selected_finca_id fl) (selected_lote_id fl))"
    using index_post_record_excede [of L fl d db e]
    by (simp add: msg_excede_text)
next
  fix r
  show "\<exists>n. \<bar>of_nat n - \<bar>r\<bar> * 100\<bar> \<le> 1 / 2
          \<and> format_2f r =
              (if r < 0 then ''-'' else []) @ str_nat (n div 100) @ ''.''
                @ [digit_char (n mod 100 div 10), digit_char (n mod 10)]"
    by (rule format_2f_shape)
next
  fix d
  assume a: "strptime L (fecha_raw fl) = Some d \<and> selected_lote_id fl = 1
          \<and> manzanas fl = Finite 11"
  then have e: "lote_estado (init_db new_database) (selected_lote_id fl) =
     Inr (Some \<lparr>area_total = 10, aplicadas = 0, restante = 10\<rparr>)"
    by (simp add: lote_estado_seed_1)
  from a have "\<not> le_zero (manzanas fl)"
    "greater (manzanas fl) (restante \<lparr>area_total = 10, aplicadas = 0, restante = 10\<rparr>)"
    by simp_all
  from index_post_record_excede [OF _ e this] a
  show "index_post_record L (init_db new_database) fl =
          Inr (init_db new_database,
               flash_redirect
                 (''No se pueden aplicar '' @ str_float L (Finite 11)
                    @ '' manzanas. Solo faltan 10.00 en este lote.'')
                 ''error'' (selected_finca_id fl) 1)"
    by (simp add: msg_excede_text format_2f_10)
qed

theorem mensaje_excede_witness:
  "strptime example_lib ''2026-01-10'' = Some \<lparr>year = 2026, month = 1, day = 10\<rparr>
   \<and> index_post_record example_lib (init_db new_database)
        \<lparr>selected_finca_id = 1, selected_lote_id = 1, fecha_raw = ''2026-01-10'',
         mezcla_id = 1, manzanas = Finite 11\<rparr>
      = Inr (init_db new_database,
             flash_redirect
               ''No se pueden aplicar 11.0 manzanas. Solo faltan 10.00 en este lote.''
               ''error'' 1 1)"
proof -
  let ?fl = "\<lparr>selected_finca_id = 1, selected_lote_id = 1, fecha_raw = ''2026-01-10'',
         mezcla_id = 1, manzanas = Finite 11\<rparr>"
  have d: "strptime example_lib ''2026-01-10'' = Some \<lparr>year = 2026, month = 1, day = 10\<rparr>"
    by code_simp
  have s: "str_float example_lib (Finite 11) = ''11.0''"
    by code_simp
  from mensaje_excede [of example_lib ?fl "init_db new_database"] d s
  show ?thesis by simp
qed

subsection \<open>Rows and keys\<close>

lemma nueva_aplicacion_sel:
  "a_lote_id (nueva_aplicacion aps d fl x) = selected_lote_id fl"
  "a_finca_id (nueva_aplicacion aps d fl x) = selected_finca_id fl"
  "a_mezcla_id (nueva_aplicacion aps d fl x) = mezcla_id fl"
  "a_manzanas_aplicadas (nueva_aplicacion aps d fl x) = x"
  "a_fecha (nueva_aplicacion aps d fl x) = isoformat d"
  by (simp_all add: nueva_aplicacion_def)

lemma primary_keys_iff:
  "primary_keys db \<longleftrightarrow>
     (\<exists>fs ls. fincas db = Some fs \<and> lotes db = Some ls
        \<and> distinct (map f_id fs) \<and> distinct (map l_id ls))"
  by (auto simp: primary_keys_def split: option.splits)

subsection \<open>What initialisation writes\<close>

lemma init_db_fincas_kept:
  "fincas db = Some fs \<Longrightarrow> fs \<noteq> [] \<Longrightarrow>
   fincas (init_db db) = fincas db
   \<and> lotes (init_db db) = Some (create_table_if_not_exists (lotes db))"
  by (simp add: init_db_def Let_def create_table_if_not_exists_def split: prod.splits)

lemma init_db_mezclas_kept:
  "mezclas db = Some ms \<Longrightarrow> ms \<noteq> [] \<Longrightarrow>
   mezclas (init_db db) = mezclas db
   \<and> mezcla_productos (init_db db) = Some (create_table_if_not_exists (mezcla_productos db))"
  by (simp add: init_db_def Let_def create_table_if_not_exists_def split: prod.splits)

lemma init_db_new_fincas:
  "fincas (init_db new_database) =
     Some (map (\<lambda>n. \<lparr>f_id = int n, f_nombre = ''Finca '' @ str_nat n, f_area_total = 70\<rparr>)
             [1..<11])"
  by code_simp

lemma init_db_new_lotes:
  "lotes (init_db new_database) =
     Some (concat (map (\<lambda>n. map (\<lambda>k. \<lparr>l_id = 7 * (int n - 1) + int k, l_finca_id = int n,
                                        l_nombre = ''Lote '' @ str_nat k, l_area_total = 10\<rparr>)
                               [1..<8])
                     [1..<11]))"
  by code_simp

lemma init_db_new_mezclas:
  "mezclas (init_db new_database) = Some [\<lparr>m_id = 1, m_nombre = ''Mezcla 1''\<rparr>]
   \<and> mezcla_productos (init_db new_database) =
       Some [\<lparr>mp_id = 1, mp_mezcla_id = 1, mp_producto = ''Producto A'',
               mp_dosis_litros_manzana = 3 / 2\<rparr>,
             \<lparr>mp_id = 2, mp_mezcla_id = 1, mp_producto = ''Producto B'',
               mp_dosis_litros_manzana = 2\<rparr>,
             \<lparr>mp_id = 3, mp_mezcla_id = 1, mp_producto = ''Producto C'',
               mp_dosis_litros_manzana = 1 / 2\<rparr>]
   \<and> aplicaciones (init_db new_database) = Some []"
  by code_simp

text \<open>
  Claim C8, as amended.  \<^verbatim>\<open>init_db\<close> leaves the five tables in place.  On a new database
  file it writes exactly 10 farms of area 70, 7 plots of area 10 for each farm, one mixture
  and its three products with the doses 1.5, 2.0 and 0.5, and no application.  Farms and
  plots are written only when the table of farms is empty, the mixture and its products
  only when the table of mixtures is empty; applications are never touched.  On a store
  that holds a farm and a mixture (every store \<^verbatim>\<open>init_db\<close> has run on is one) running it
  again changes nothing.
\<close>

theorem init_db_seeds:
  "(\<exists>fs ls ms mps aps. fincas (init_db db) = Some fs \<and> lotes (init_db db) = Some ls
       \<and> mezclas (init_db db) = Some ms \<and> mezcla_productos (init_db db) = Some mps
       \<and> aplicaciones (init_db db) = Some aps)
   \<and> fincas (init_db new_database) =
       Some (map (\<lambda>n. \<lparr>f_id = int n, f_nombre = ''Finca '' @ str_nat n, f_area_total = 70\<rparr>)
               [1..<11])
   \<and> lotes (init_db new_database) =
       Some (concat (map (\<lambda>n. map (\<lambda>k. \<lparr>l_id = 7 * (int n - 1) + int k, l_finca_id = int n,
                                          l_nombre = ''Lote '' @ str_nat k, l_area_total = 10\<rparr>)
                                 [1..<8])
                       [1..<11]))
   \<and> mezclas (init_db new_database) = Some [\<lparr>m_id = 1, m_nombre = ''Mezcla 1''\<rparr>]
   \<and> mezcla_productos (init_db new_database) =
       Some [\<lparr>mp_id = 1, mp_mezcla_id = 1, mp_producto = ''Producto A'',
               mp_dosis_litros_manzana = 3 / 2\<rparr>,
             \<lparr>mp_id = 2, mp_mezcla_id = 1, mp_producto = ''Producto B'',
               mp_dosis_litros_manzana = 2\<rparr>,
             \<lparr>mp_id = 3, mp_mezcla_id = 1, mp_producto = ''Producto C'',
               mp_dosis_litros_manzana = 1 / 2\<rparr>]
   \<and> aplicaciones (init_db new_database) = Some []
   \<and> (\<forall>fs. fincas db = Some fs \<and> fs \<noteq> [] \<longrightarrow>
         fincas (init_db db) = fincas db
         \<and> lotes (init_db db) = Some (create_table_if_not_exists (lotes db)))
   \<and> (\<forall>ms. mezclas db = Some ms \<and> ms \<noteq> [] \<longrightarrow>
         mezclas (init_db db) = mezclas db
         \<and> mezcla_productos (init_db db) = Some (create_table_if_not_exists (mezcla_productos db)))
   \<and> aplicaciones (init_db db) = Some (create_table_if_not_exists (aplicaciones db))
   \<and> (\<forall>fs ls ms mps aps. fincas db = Some fs \<and> fs \<noteq> [] \<and> mezclas db = Some ms \<and> ms \<noteq> []
         \<and> lotes db = Some ls \<and> mezcla_productos db = Some mps \<and> aplicaciones db = Some aps
         \<longrightarrow> init_db db = db)
   \<and> init_db (init_db db) = init_db db"
proof -
  have 1: "\<exists>fs ls ms mps aps. fincas (init_db db) = Some fs \<and> lotes (init_db db) = Some ls
       \<and> mezclas (init_db db) = Some ms \<and> mezcla_productos (init_db db) = Some mps
       \<and> aplicaciones (init_db db) = Some aps"
    using init_db_fincas [of db] init_db_lotes [of db] init_db_mezclas [of db]
      init_db_mezcla_productos [of db] init_db_aplicaciones [of db]
    by blast
  have 2: "\<forall>fs. fincas db = Some fs \<and> fs \<noteq> [] \<longrightarrow>
         fincas (init_db db) = fincas db
         \<and> lotes (init_db db) = Some (create_table_if_not_exists (lotes db))"
    using init_db_fincas_kept [of db] by blast
  have 3: "\<forall>ms. mezclas db = Some ms \<and> ms \<noteq> [] \<longrightarrow>
         mezclas (init_db db) = mezclas db
         \<and> mezcla_productos (init_db db) = Some (create_table_if_not_exists (mezcla_productos db))"
    using init_db_mezclas_kept [of db] by blast
  have 4: "\<forall>fs ls ms mps aps. fincas db = Some fs \<and> fs \<noteq> [] \<and> mezclas db = Some ms \<and> ms \<noteq> []
         \<and> lotes db = Some ls \<and> mezcla_productos db = Some mps \<and> aplicaciones db = Some aps
         \<longrightarrow> init_db db = db"
    using init_db_noop [of db] by blast
  from 1 2 3 4 init_db_new_fincas init_db_new_lotes init_db_new_mezclas
    init_db_aplicaciones [of db] init_db_idem [of db]
  show ?thesis by blast
qed

theorem init_db_seeds_witness:
  "fincas una_finca = Some [\<lparr>f_id = 1, f_nombre = ''Finca 1'', f_area_total = 70\<rparr>]
   \<and> fincas (init_db una_finca) = fincas una_finca
   \<and> lotes (init_db una_finca) = lotes una_finca
   \<and> init_db (init_db una_finca) = init_db una_finca"
proof -
  have f: "fincas una_finca = Some [\<lparr>f_id = 1, f_nombre = ''Finca 1'', f_area_total = 70\<rparr>]"
    by (simp add: una_finca_def)
  have l: "Some (create_table_if_not_exists (lotes una_finca)) = lotes una_finca"
    by (simp add: una_finca_def create_table_if_not_exists_def)
  from init_db_seeds [of una_finca] f l show ?thesis
    by simp
qed

text \<open>
  Claim C8 as stated fails: on a store with a farm and no mixture the table of farms is not
  empty, yet \<^verbatim>\<open>init_db\<close> writes the default mixture, so it is not a no-op there.
\<close>

theorem init_db_seeds_counterexample:
  "fincas una_finca = Some [\<lparr>f_id = 1, f_nombre = ''Finca 1'', f_area_total = 70\<rparr>]
   \<and> mezclas una_finca = Some []
   \<and> mezclas (init_db una_finca) = Some [\<lparr>m_id = 1, m_nombre = ''Mezcla 1''\<rparr>]
   \<and> init_db una_finca \<noteq> una_finca"
proof -
  have "mezclas (init_db una_finca) = Some [\<lparr>m_id = 1, m_nombre = ''Mezcla 1''\<rparr>]"
    by code_simp
  moreover have "mezclas una_finca = Some []"
    "fincas una_finca = Some [\<lparr>f_id = 1, f_nombre = ''Finca 1'', f_area_total = 70\<rparr>]"
    by (simp_all add: una_finca_def)
  ultimately show ?thesis by auto
qed

subsection \<open>The farm of an application\<close>

lemma index_post_Inr:
  assumes "index_post L db req = (db', Inr r)"
  shows "\<exists>fl. index_post_fields L db req = Inr fl \<and> index_post_record L db fl = Inr (db', r)"
proof (cases "index_post_fields L db req")
  case (Inl e)
  with assms show ?thesis by (simp add: index_post_fields_error)
next
  case (Inr fl)
  with assms show ?thesis
    by (auto simp: index_post_fields_ok split: sum.splits)
qed

lemma selected_id_default:
  assumes "truthy (form req k) = None" and "truthy (args req k) = None"
    and "selected_id L req k ids = Inr i"
  shows "i \<in> set ids"
  using assms by (cases ids) (simp_all add: selected_id_def)

lemma farm_consistent_iff:
  "farm_consistent ls a \<longleftrightarrow> (\<forall>l \<in> set ls. l_id l = a_lote_id a \<longrightarrow> l_finca_id l = a_finca_id a)"
  by (auto simp: farm_consistent_def list_all_iff)

text \<open>
  Claim C5, as amended.  Every application the recorder accepts carries the farm id and
  the plot id the request selected.  Its farm is the farm of its plot exactly when the
  selected plot belongs to the selected farm; that is so whenever the request leaves the
  plot to its default, the first plot of the selected farm.
\<close>

theorem farm_id_as_selected:
  assumes "index_post L db req = (db', Inr r)" and "flash_category r = ''success''"
  shows "\<exists>fl ls aps a. index_post_fields L db req = Inr fl
    \<and> lotes db = Some ls \<and> lotes db' = Some ls
    \<and> aplicaciones db = Some aps \<and> aplicaciones db' = Some (aps @ [a])
    \<and> a_finca_id a = selected_finca_id fl \<and> a_lote_id a = selected_lote_id fl
    \<and> (farm_consistent ls a \<longleftrightarrow>
         (\<forall>l \<in> set ls. l_id l = selected_lote_id fl \<longrightarrow> l_finca_id l = selected_finca_id fl))
    \<and> (primary_keys db \<and> truthy (form req ''lote_id'') = None
          \<and> truthy (args req ''lote_id'') = None \<longrightarrow> farm_consistent ls a)"
proof -
  from index_post_Inr [OF assms(1)] obtain fl where
    fl: "index_post_fields L db req = Inr fl" and rec: "index_post_record L db fl = Inr (db', r)"
    by blast
  from index_post_record_Inr [OF rec] assms(2) obtain d x aps where
    aps: "aplicaciones db = Some aps"
    and db': "db' = db\<lparr>aplicaciones := Some (aps @ [nueva_aplicacion aps d fl x])\<rparr>"
    by auto
  from index_post_fields_Inr [OF fl] obtain ls where ls: "lotes db = Some ls"
    and sel: "selected_id L req ''lote_id''
         (map l_id (sort_key l_id (filter (\<lambda>l. l_finca_id l = selected_finca_id fl) ls)))
       = Inr (selected_lote_id fl)"
    by blast
  let ?a = "nueva_aplicacion aps d fl x"
  have iff: "farm_consistent ls ?a \<longleftrightarrow>
         (\<forall>l \<in> set ls. l_id l = selected_lote_id fl \<longrightarrow> l_finca_id l = selected_finca_id fl)"
    by (simp add: farm_consistent_iff nueva_aplicacion_sel)
  have dflt: "farm_consistent ls ?a"
    if pk: "primary_keys db" and t: "truthy (form req ''lote_id'') = None"
      "truthy (args req ''lote_id'') = None"
  proof -
    from selected_id_default [OF t sel] obtain l0 where
      l0: "l0 \<in> set ls" "l_finca_id l0 = selected_finca_id fl" "l_id l0 = selected_lote_id fl"
      by auto
    from pk ls have inj: "inj_on l_id (set ls)"
      by (auto simp: primary_keys_iff distinct_map)
    have "l_finca_id l = selected_finca_id fl"
      if "l \<in> set ls" "l_id l = selected_lote_id fl" for l
    proof -
      from that l0 have "l_id l = l_id l0" by simp
      from inj_onD [OF inj this that(1) l0(1)] l0(2) show ?thesis by simp
    qed
    then show ?thesis unfolding iff by blast
  qed
  have ls': "lotes db' = Some ls" and aps': "aplicaciones db' = Some (aps @ [?a])"
    using ls by (simp_all add: db')
  have sel_a: "a_finca_id ?a = selected_finca_id fl" "a_lote_id ?a = selected_lote_id fl"
    by (simp_all add: nueva_aplicacion_sel)
  show ?thesis
  proof (intro exI conjI impI)
    show "index_post_fields L db req = Inr fl" by (rule fl)
    show "lotes db = Some ls" by (rule ls)
    show "lotes db' = Some ls" by (rule ls')
    show "aplicaciones db = Some aps" by (rule aps)
    show "aplicaciones db' = Some (aps @ [?a])" by (rule aps')
    show "a_finca_id ?a = selected_finca_id fl" by (rule sel_a)
    show "a_lote_id ?a = selected_lote_id fl" by (rule sel_a)
    show "farm_consistent ls ?a \<longleftrightarrow>
         (\<forall>l \<in> set ls. l_id l = selected_lote_id fl \<longrightarrow> l_finca_id l = selected_finca_id fl)"
      by (rule iff)
    assume "primary_keys db \<and> truthy (form req ''lote_id'') = None
          \<and> truthy (args req ''lote_id'') = None"
    then show "farm_consistent ls ?a" using dflt by blast
  qed
qed

theorem farm_id_as_selected_witness:
  "flash_category (flash_redirect msg_guardada ''success'' 1 1) = ''success''
   \<and> (\<exists>a. aplicaciones
             (fst (index_post example_lib una_finca
                     (post_form ''2026-01-10'' ''1'' ''1'' ''1'' ''4''))) = Some [a]
          \<and> a_finca_id a = 1 \<and> a_lote_id a = 1)"
proof -
  let ?req = "post_form ''2026-01-10'' ''1'' ''1'' ''1'' ''4''"
  let ?r = "flash_redirect msg_guardada ''success'' 1 1"
  have out: "snd (index_post example_lib una_finca ?req) = Inr ?r"
    by code_simp
  then have r: "index_post example_lib una_finca ?req
      = (fst (index_post example_lib una_finca ?req), Inr ?r)"
    by (metis prod.collapse)
  have c: "flash_category ?r = ''success''"
    by (simp add: flash_redirect_def)
  have f: "index_post_fields example_lib una_finca ?req =
      Inr \<lparr>selected_finca_id = 1, selected_lote_id = 1, fecha_raw = ''2026-01-10'',
           mezcla_id = 1, manzanas = Finite 4\<rparr>"
    by code_simp
  have a0: "aplicaciones una_finca = Some []"
    by (simp add: una_finca_def)
  from farm_id_as_selected [OF r c] f a0 c show ?thesis
    by auto
qed

text \<open>
  Claim C5 as stated fails: on the seeded store a form with \<^verbatim>\<open>finca_id=2\<close> and
  \<^verbatim>\<open>lote_id=1\<close> is accepted and stored with farm 2, while plot 1 belongs to farm 1.
\<close>

theorem farm_id_counterexample:
  "aplicaciones (fst (post_request example_lib new_database
                        (post_form ''2026-01-10'' ''2'' ''1'' ''1'' ''5'')))
     = Some [\<lparr>a_id = 1, a_fecha = ''2026-01-10'', a_finca_id = 2, a_lote_id = 1,
              a_mezcla_id = 1, a_manzanas_aplicadas = 5\<rparr>]
   \<and> map_option (map l_finca_id \<circ> filter (\<lambda>l. l_id l = 1))
       (lotes (fst (post_request example_lib new_database
                      (post_form ''2026-01-10'' ''2'' ''1'' ''1'' ''5''))))
     = Some [1]"
  by code_simp

subsection \<open>Grouping\<close>

lemma group_by_rows:
  "(k, r, rs) \<in> set (group_by key xs) \<Longrightarrow> r # rs = filter (\<lambda>x. key x = k) xs"
proof (induction key xs rule: group_by.induct)
  case (1 key)
  then show ?case by simp
next
  case (2 key x xs)
  from "2.prems" consider
    "k = key x" "r = x" "rs = filter (\<lambda>y. key y = key x) xs"
    | "(k, r, rs) \<in> set (group_by key (filter (\<lambda>y. key y \<noteq> key x) xs))"
    by auto
  then show ?case
  proof cases
    case 1
    then show ?thesis by simp
  next
    case 2
    from "2.IH" [OF 2]
    have eq: "r # rs = filter (\<lambda>y. key y = k) (filter (\<lambda>y. key y \<noteq> key x) xs)" .
    then have "r \<in> set (filter (\<lambda>y. key y = k) (filter (\<lambda>y. key y \<noteq> key x) xs))"
      by (metis list.set_intros(1))
    then have ne: "key x \<noteq> k" by auto
    have "filter (\<lambda>y. key y = k) (filter (\<lambda>y. key y \<noteq> key x) xs) = filter (\<lambda>y. key y = k) xs"
      using ne by (auto intro: filter_cong)
    with eq ne show ?thesis by simp
  qed
qed

lemma group_by_keys: "set (map fst (group_by key xs)) = key ` set xs"
  by (induction key xs rule: group_by.induct) auto

lemma group_by_key_mem: "(k, r, rs) \<in> set (group_by key xs) \<Longrightarrow> k \<in> key ` set xs"
  using group_by_keys [of key xs] by force

lemma group_by_distinct: "distinct (map fst (group_by key xs))"
  by (induction key xs rule: group_by.induct) (auto dest: group_by_key_mem)

lemma sorted_groups_keys:
  fixes key :: "'r \<Rightarrow> 'k::linorder"
  shows "map fst (sort_key fst (group_by key xs)) = sorted_list_of_set (key ` set xs)"
proof -
  let ?G = "group_by key xs"
  let ?S = "sort_key fst ?G"
  have "distinct ?G" "inj_on fst (set ?G)"
    using group_by_distinct [of key xs] by (simp_all add: distinct_map)
  then have d: "distinct (map fst ?S)"
    by (simp add: distinct_map)
  have s: "sorted (map fst ?S)"
    by (rule sorted_sort_key)
  have "set (map fst ?S) = key ` set xs"
    using group_by_keys [of key xs] by simp
  with sorted_list_of_set.idem_if_sorted_distinct [OF s d] show ?thesis
    by simp
qed

lemma sorted_groups_rows:
  fixes key :: "'r \<Rightarrow> 'k::linorder"
  shows "map (\<lambda>(k, r, rs). h k (r # rs)) (sort_key fst (group_by key xs))
    = map (\<lambda>k. h k (filter (\<lambda>x. key x = k) xs)) (sorted_list_of_set (key ` set xs))"
proof -
  let ?S = "sort_key fst (group_by key xs)"
  have "map (\<lambda>(k, r, rs). h k (r # rs)) ?S
      = map ((\<lambda>k. h k (filter (\<lambda>x. key x = k) xs)) \<circ> fst) ?S"
  proof (rule map_cong [OF refl])
    fix g assume "g \<in> set ?S"
    then have g: "g \<in> set (group_by key xs)" by simp
    obtain k r rs where "g = (k, r, rs)" by (cases g) auto
    with group_by_rows [of k r rs key xs] g
    show "(case g of (k, r, rs) \<Rightarrow> h k (r # rs))
        = ((\<lambda>k. h k (filter (\<lambda>x. key x = k) xs)) \<circ> fst) g"
      by simp
  qed
  also have "\<dots> = map (\<lambda>k. h k (filter (\<lambda>x. key x = k) xs)) (map fst ?S)"
    by simp
  finally show ?thesis
    by (simp only: sorted_groups_keys)
qed

subsection \<open>Totals\<close>

lemma totales_join_keys:
  "map (\<lambda>(a, mp). mp_producto mp) (totales_join aps mps)
     = [mp_producto mp. a \<leftarrow> aps, mp \<leftarrow> mps, mp_mezcla_id mp = a_mezcla_id a]"
proof -
  have inner: "map (\<lambda>(a, mp). mp_producto mp)
        (concat (map (\<lambda>mp. if mp_mezcla_id mp = m then [(a, mp)] else []) ps))
      = concat (map (\<lambda>mp. if mp_mezcla_id mp = m then [mp_producto mp] else []) ps)"
    for m and a :: aplicacion and ps :: "mezcla_producto list"
    by (induction ps) simp_all
  show ?thesis
    unfolding totales_join_def
    by (induction aps) (simp_all add: inner)
qed

lemma totales_join_litros:
  "map (\<lambda>(a, mp). litros a mp)
       (filter (\<lambda>x. (case x of (a, mp) \<Rightarrow> mp_producto mp) = p) (totales_join aps mps))
     = [litros a mp. a \<leftarrow> aps, mp \<leftarrow> mps,
          mp_mezcla_id mp = a_mezcla_id a \<and> mp_producto mp = p]"
proof -
  have inner: "map (\<lambda>(a, mp). litros a mp)
        (filter (\<lambda>x. (case x of (a, mp) \<Rightarrow> mp_producto mp) = p)
           (concat (map (\<lambda>mp. if mp_mezcla_id mp = m then [(a, mp)] else []) ps)))
      = concat (map (\<lambda>mp. if mp_mezcla_id mp = m \<and> mp_producto mp = p
                            then [litros a mp] else []) ps)"
    for m and a :: aplicacion and ps :: "mezcla_producto list"
    by (induction ps) simp_all
  show ?thesis
    unfolding totales_join_def
    by (induction aps) (simp_all add: inner)
qed

lemma totales_refine:
  "map (\<lambda>(producto, r, rs).
          (producto, sql_round (sum_list (map (\<lambda>(a, mp). litros a mp) (r # rs))) 2))
     (sort_key fst (group_by (\<lambda>(a, mp). mp_producto mp) (totales_join aps mps)))
   = totales_spec aps mps"
proof -
  let ?key = "\<lambda>(a :: aplicacion, mp). mp_producto mp"
  let ?J = "totales_join aps mps"
  have keys: "?key ` set ?J
      = set [mp_producto mp. a \<leftarrow> aps, mp \<leftarrow> mps, mp_mezcla_id mp = a_mezcla_id a]"
    using arg_cong [OF totales_join_keys [of aps mps], of set] by simp
  show ?thesis
    unfolding totales_spec_def
    using sorted_groups_rows [of "\<lambda>k rows. (k, sql_round (sum_list (map (\<lambda>(a, mp). litros a mp) rows)) 2)"
        ?key ?J]
    by (simp add: keys totales_join_litros)
qed

lemma obtener_totales_producto_spec:
  assumes "aplicaciones db = Some aps" and "mezcla_productos db = Some mps"
  shows "obtener_totales_producto db = Inr (totales_spec aps mps)"
  unfolding obtener_totales_producto_def
  by (simp only: assms table_Some bind_exc_Inr totales_refine)

lemma totales_spec_sorted: "sorted_wrt (<) (map fst (totales_spec aps mps))"
  by (simp add: totales_spec_def comp_def)

subsection \<open>Detail\<close>

lemma concat_if_singleton:
  "concat (map (\<lambda>x. if P x then [g x] else []) xs) = map g (filter P xs)"
  by (induction xs) simp_all

lemma concat_none: "\<forall>x \<in> set xs. k x \<noteq> i \<Longrightarrow> concat (map (\<lambda>x. if k x = i then g x else []) xs) = []"
  by (induction xs) simp_all

lemma find_none: "\<forall>x \<in> set xs. k x \<noteq> i \<Longrightarrow> find (\<lambda>x. k x = i) xs = None"
  by (induction xs) simp_all

lemma concat_key_find:
  "distinct (map k xs) \<Longrightarrow>
   concat (map (\<lambda>x. if k x = i then g x else []) xs)
     = (case find (\<lambda>x. k x = i) xs of None \<Rightarrow> [] | Some x \<Rightarrow> g x)"
proof (induction xs)
  case Nil
  then show ?case by simp
next
  case (Cons x xs)
  show ?case
  proof (cases "k x = i")
    case True
    from Cons.prems have "k x \<notin> k ` set xs" by simp
    with True have "\<forall>y \<in> set xs. k y \<noteq> i" by blast
    with True show ?thesis by (simp add: concat_none)
  next
    case False
    with Cons show ?thesis by simp
  qed
qed

lemma find_SomeD: "find P xs = Some x \<Longrightarrow> P x \<and> x \<in> set xs"
  by (induction xs) (auto split: if_splits)

lemma find_None_image: "find (\<lambda>x. k x = i) xs = None \<longleftrightarrow> i \<notin> k ` set xs"
  by (auto simp: find_None_iff)

lemma detalle_join_filas:
  assumes "distinct (map f_id fs)" and "distinct (map l_id ls)"
  shows "detalle_join aps fs ls mps = concat (map (filas_aplicacion fs ls mps) aps)"
proof -
  have "concat (map (\<lambda>f. if f_id f = a_finca_id a
                       then concat (map (\<lambda>l. if l_id l = a_lote_id a
                          then concat (map (\<lambda>mp. if mp_mezcla_id mp = a_mezcla_id a
                                 then [(a, f, l, mp)] else []) mps)
                          else []) ls)
                       else []) fs)
      = filas_aplicacion fs ls mps a" for a
    unfolding filas_aplicacion_def concat_key_find [OF assms(1)] concat_key_find [OF assms(2)]
      concat_if_singleton ..
  then show ?thesis
    by (simp add: detalle_join_def)
qed

lemma filas_aplicacion_mem:
  assumes "(a', f, l, mp) \<in> set (filas_aplicacion fs ls mps a)"
  shows "a' = a \<and> find (\<lambda>f. f_id f = a_finca_id a) fs = Some f
    \<and> find (\<lambda>l. l_id l = a_lote_id a) ls = Some l
    \<and> f_id f = a_finca_id a \<and> l_id l = a_lote_id a
    \<and> mp \<in> set mps \<and> mp_mezcla_id mp = a_mezcla_id a"
proof (cases "find (\<lambda>f. f_id f = a_finca_id a) fs")
  case None
  with assms show ?thesis by (simp add: filas_aplicacion_def)
next
  case f: (Some f0)
  show ?thesis
  proof (cases "find (\<lambda>l. l_id l = a_lote_id a) ls")
    case None
    with f assms show ?thesis by (simp add: filas_aplicacion_def)
  next
    case l: (Some l0)
    from assms f l have "a' = a" "f = f0" "l = l0" "mp \<in> set mps"
      "mp_mezcla_id mp = a_mezcla_id a"
      by (auto simp: filas_aplicacion_def)
    with f l find_SomeD [OF f] find_SomeD [OF l] show ?thesis by simp
  qed
qed

lemma filas_aplicacion_keys:
  "map (\<lambda>(a, f, l, mp). (f_id f, l_id l, mp_producto mp)) (filas_aplicacion fs ls mps a)
     = (if a_finca_id a \<in> f_id ` set fs \<and> a_lote_id a \<in> l_id ` set ls
        then map (\<lambda>mp. (a_finca_id a, a_lote_id a, mp_producto mp))
               (filter (\<lambda>mp. mp_mezcla_id mp = a_mezcla_id a) mps)
        else [])"
proof (cases "find (\<lambda>f. f_id f = a_finca_id a) fs")
  case None
  then have "a_finca_id a \<notin> f_id ` set fs"
    using find_None_image [of f_id "a_finca_id a" fs] by blast
  with None show ?thesis
    by (simp add: filas_aplicacion_def)
next
  case f: (Some f)
  then have fi: "a_finca_id a \<in> f_id ` set fs" "f_id f = a_finca_id a"
    using find_None_image [of f_id "a_finca_id a" fs] find_SomeD [OF f] by auto
  show ?thesis
  proof (cases "find (\<lambda>l. l_id l = a_lote_id a) ls")
    case None
    then have "a_lote_id a \<notin> l_id ` set ls"
      using find_None_image [of l_id "a_lote_id a" ls] by blast
    with f None show ?thesis
      by (simp add: filas_aplicacion_def)
  next
    case l: (Some l)
    then have li: "a_lote_id a \<in> l_id ` set ls" "l_id l = a_lote_id a"
      using find_None_image [of l_id "a_lote_id a" ls] find_SomeD [OF l] by auto
    from f l fi li show ?thesis
      by (simp add: filas_aplicacion_def)
  qed
qed

lemma filas_aplicacion_litros:
  assumes "i \<in> f_id ` set fs" and "j \<in> l_id ` set ls"
  shows "map (\<lambda>(a, f, l, mp). litros a mp)
       (filter (\<lambda>r. (case r of (a, f, l, mp) \<Rightarrow> (f_id f, l_id l, mp_producto mp)) = (i, j, p))
          (filas_aplicacion fs ls mps a))
     = (if a_finca_id a = i \<and> a_lote_id a = j
        then map (litros a)
               (filter (\<lambda>mp. mp_mezcla_id mp = a_mezcla_id a \<and> mp_producto mp = p) mps)
        else [])"
proof (cases "find (\<lambda>f. f_id f = a_finca_id a) fs")
  case None
  then have "a_finca_id a \<noteq> i"
    using assms(1) by (auto simp: find_None_image)
  with None show ?thesis
    by (simp add: filas_aplicacion_def)
next
  case f: (Some f)
  then have fi: "f_id f = a_finca_id a"
    using find_SomeD [OF f] by simp
  show ?thesis
  proof (cases "find (\<lambda>l. l_id l = a_lote_id a) ls")
    case None
    then have "a_lote_id a \<noteq> j"
      using assms(2) by (auto simp: find_None_image)
    with f None show ?thesis
      by (simp add: filas_aplicacion_def)
  next
    case l: (Some l)
    then have li: "l_id l = a_lote_id a"
      using find_SomeD [OF l] by simp
    have "filter (\<lambda>r. (case r of (a, f, l, mp) \<Rightarrow> (f_id f, l_id l, mp_producto mp)) = (i, j, p))
          (map (\<lambda>mp. (a, f, l, mp)) (filter (\<lambda>mp. mp_mezcla_id mp = a_mezcla_id a) mps))
        = (if a_finca_id a = i \<and> a_lote_id a = j
           then map (\<lambda>mp. (a, f, l, mp))
                  (filter (\<lambda>mp. mp_mezcla_id mp = a_mezcla_id a \<and> mp_producto mp = p) mps)
           else [])"
      by (induction mps) (auto simp: fi li)
    with f l show ?thesis
      by (simp add: filas_aplicacion_def comp_def)
  qed
qed

lemma detalle_join_keys:
  assumes "distinct (map f_id fs)" and "distinct (map l_id ls)"
  shows "(\<lambda>(a, f, l, mp). (f_id f, l_id l, mp_producto mp)) ` set (detalle_join aps fs ls mps)
     = set [(a_finca_id a, a_lote_id a, mp_producto mp). a \<leftarrow> aps,
              a_finca_id a \<in> f_id ` set fs \<and> a_lote_id a \<in> l_id ` set ls, mp \<leftarrow> mps,
              mp_mezcla_id mp = a_mezcla_id a]"
proof -
  have "map (\<lambda>(a, f, l, mp). (f_id f, l_id l, mp_producto mp)) (detalle_join aps fs ls mps)
     = [(a_finca_id a, a_lote_id a, mp_producto mp). a \<leftarrow> aps,
              a_finca_id a \<in> f_id ` set fs \<and> a_lote_id a \<in> l_id ` set ls, mp \<leftarrow> mps,
              mp_mezcla_id mp = a_mezcla_id a]"
    unfolding detalle_join_filas [OF assms]
    by (induction aps) (simp_all add: filas_aplicacion_keys concat_if_singleton)
  from arg_cong [OF this, of set] show ?thesis
    by (simp only: set_map)
qed

lemma detalle_join_litros:
  assumes "distinct (map f_id fs)" and "distinct (map l_id ls)"
    and "i \<in> f_id ` set fs" and "j \<in> l_id ` set ls"
  shows "map (\<lambda>(a, f, l, mp). litros a mp)
       (filter (\<lambda>r. (case r of (a, f, l, mp) \<Rightarrow> (f_id f, l_id l, mp_producto mp)) = (i, j, p))
          (detalle_join aps fs ls mps))
     = [litros a mp. a \<leftarrow> aps, a_finca_id a = i \<and> a_lote_id a = j, mp \<leftarrow> mps,
          mp_mezcla_id mp = a_mezcla_id a \<and> mp_producto mp = p]"
  unfolding detalle_join_filas [OF assms(1,2)]
  by (induction aps)
    (simp_all add: filas_aplicacion_litros [OF assms(3,4)] concat_if_singleton)

lemma detalle_join_head:
  assumes "distinct (map f_id fs)" and "distinct (map l_id ls)"
    and "filter (\<lambda>r. (case r of (a, f, l, mp) \<Rightarrow> (f_id f, l_id l, mp_producto mp)) = (i, j, p))
          (detalle_join aps fs ls mps) = (a, f, l, mp) # rs"
  shows "nombre_finca fs i = f_nombre f \<and> nombre_lote ls j = l_nombre l \<and> mp_producto mp = p"
proof -
  from assms(3) have
    "(a, f, l, mp) \<in> set (filter (\<lambda>r. (case r of (a, f, l, mp) \<Rightarrow> (f_id f, l_id l, mp_producto mp)) = (i, j, p))
          (detalle_join aps fs ls mps))"
    by simp
  then have k: "f_id f = i" "l_id l = j" "mp_producto mp = p"
    and m: "(a, f, l, mp) \<in> set (detalle_join aps fs ls mps)"
    by simp_all
  from m obtain a' where "(a, f, l, mp) \<in> set (filas_aplicacion fs ls mps a')"
    unfolding detalle_join_filas [OF assms(1,2)] by auto
  from filas_aplicacion_mem [OF this] k show ?thesis
    by (simp add: nombre_finca_def nombre_lote_def)
qed

lemma detalle_refine:
  assumes df: "distinct (map f_id fs)" and dl: "distinct (map l_id ls)"
  shows "map (\<lambda>(k, (a, f, l, mp), rs).
                (f_nombre f, l_nombre l, mp_producto mp,
                 sql_round
                   (sum_list (map (\<lambda>(a, f, l, mp). litros a mp) ((a, f, l, mp) # rs))) 2))
           (detalle_grupos aps fs ls mps)
         = map snd (detalle_spec aps fs ls mps)"
proof -
  let ?K = "\<lambda>(a :: aplicacion, f, l, mp). (f_id f, l_id l, mp_producto mp)"
  let ?W = "\<lambda>(a, f :: finca, l :: lote, mp). litros a mp"
  let ?J = "detalle_join aps fs ls mps"
  let ?KS = "set [(a_finca_id a, a_lote_id a, mp_producto mp). a \<leftarrow> aps,
                  a_finca_id a \<in> f_id ` set fs \<and> a_lote_id a \<in> l_id ` set ls, mp \<leftarrow> mps,
                  mp_mezcla_id mp = a_mezcla_id a]"
  let ?G = "\<lambda>(i, j, p).
              (nombre_finca fs i, nombre_lote ls j, p,
               sql_round
                 (sum_list [litros a mp. a \<leftarrow> aps, a_finca_id a = i \<and> a_lote_id a = j, mp \<leftarrow> mps,
                              mp_mezcla_id mp = a_mezcla_id a \<and> mp_producto mp = p]) 2)"
  define H where "H = (\<lambda>(k :: int \<times> int \<times> string) rows.
     case rows of
       [] \<Rightarrow> ([], [], [], 0)
     | (a :: aplicacion, f, l, mp) # _ \<Rightarrow>
         (f_nombre f, l_nombre l, mp_producto mp, sql_round (sum_list (map ?W rows)) 2))"
  have keys: "?K ` set ?J = ?KS"
    by (rule detalle_join_keys [OF df dl])
  have code: "(\<lambda>(k, (a, f, l, mp), rs).
                (f_nombre f, l_nombre l, mp_producto mp,
                 sql_round (sum_list (map ?W ((a, f, l, mp) # rs))) 2))
      = (\<lambda>(k, r, rs). H k (r # rs))"
    by (auto simp: H_def fun_eq_iff)
  have row: "H k (filter (\<lambda>x. ?K x = k) ?J) = ?G k" if k: "k \<in> ?KS" for k
  proof -
    obtain i j p where ijp: "k = (i, j, p)" by (cases k) auto
    from k ijp have ij: "i \<in> f_id ` set fs" "j \<in> l_id ` set ls"
      by auto
    from k keys have "k \<in> ?K ` set ?J" by simp
    then obtain r where "r \<in> set ?J" "?K r = k" by auto
    then have "filter (\<lambda>x. ?K x = k) ?J \<noteq> []"
      by (auto simp: filter_empty_conv)
    then obtain r0 rs where f: "filter (\<lambda>x. ?K x = k) ?J = r0 # rs"
      by (cases "filter (\<lambda>x. ?K x = k) ?J") auto
    obtain a f0 l0 mp where r0: "r0 = (a, f0, l0, mp)" by (cases r0) auto
    from detalle_join_head [OF df dl f [unfolded ijp r0]]
    have names: "nombre_finca fs i = f_nombre f0" "nombre_lote ls j = l_nombre l0"
      "mp_producto mp = p"
      by simp_all
    have sum: "map ?W (filter (\<lambda>x. ?K x = k) ?J)
        = [litros a mp. a \<leftarrow> aps, a_finca_id a = i \<and> a_lote_id a = j, mp \<leftarrow> mps,
             mp_mezcla_id mp = a_mezcla_id a \<and> mp_producto mp = p]"
      unfolding ijp by (rule detalle_join_litros [OF df dl ij])
    have "H k (filter (\<lambda>x. ?K x = k) ?J)
        = (f_nombre f0, l_nombre l0, mp_producto mp,
           sql_round (sum_list (map ?W (filter (\<lambda>x. ?K x = k) ?J))) 2)"
      unfolding H_def f r0 by simp
    also have "\<dots> = ?G k"
      unfolding sum by (simp add: ijp names)
    finally show ?thesis .
  qed
  have "map (\<lambda>(k, r, rs). H k (r # rs)) (detalle_grupos aps fs ls mps)
      = map (\<lambda>k. H k (filter (\<lambda>x. ?K x = k) ?J)) (sorted_list_of_set (?K ` set ?J))"
    unfolding detalle_grupos_def by (rule sorted_groups_rows)
  also have "\<dots> = map ?G (sorted_list_of_set ?KS)"
    unfolding keys by (rule map_cong [OF refl]) (simp add: row)
  also have "\<dots> = map snd (detalle_spec aps fs ls mps)"
    unfolding detalle_spec_def by (simp add: comp_def case_prod_unfold)
  finally show ?thesis
    unfolding code .
qed

lemma detalle_grupos_keys:
  assumes "distinct (map f_id fs)" and "distinct (map l_id ls)"
  shows "map fst (detalle_grupos aps fs ls mps) = map fst (detalle_spec aps fs ls mps)"
proof -
  have "map fst (detalle_spec aps fs ls mps)
      = sorted_list_of_set
          (set [(a_finca_id a, a_lote_id a, mp_producto mp). a \<leftarrow> aps,
                  a_finca_id a \<in> f_id ` set fs \<and> a_lote_id a \<in> l_id ` set ls, mp \<leftarrow> mps,
                  mp_mezcla_id mp = a_mezcla_id a])"
    unfolding detalle_spec_def by (simp add: comp_def case_prod_unfold)
  then show ?thesis
    unfolding detalle_grupos_def sorted_groups_keys detalle_join_keys [OF assms] by simp
qed

lemma detalle_spec_sorted: "sorted_wrt (<) (map fst (detalle_spec aps fs ls mps))"
  unfolding detalle_spec_def by (simp add: comp_def case_prod_unfold)

lemma obtener_detalle_producto_spec:
  assumes "aplicaciones db = Some aps" and "fincas db = Some fs" and "lotes db = Some ls"
    and "mezcla_productos db = Some mps"
    and "distinct (map f_id fs)" and "distinct (map l_id ls)"
  shows "obtener_detalle_producto db = Inr (map snd (detalle_spec aps fs ls mps))"
  unfolding obtener_detalle_producto_def
  by (simp only: assms(1-4) table_Some bind_exc_Inr detalle_refine [OF assms(5,6)])

subsection \<open>Rounding\<close>

text \<open>
  \<^verbatim>\<open>sql_round x n\<close> is a whole number of units of the \<open>n\<close>-th decimal, at most half a
  unit from \<open>x\<close>, and at exactly half a unit it is the one further from zero.
\<close>

lemma floor_half_near:
  fixes y :: rat
  shows "\<bar>of_int \<lfloor>y + 1 / 2\<rfloor> - y\<bar> \<le> 1 / 2"
    and "\<bar>of_int \<lfloor>y + 1 / 2\<rfloor> - y\<bar> = 1 / 2 \<Longrightarrow> of_int \<lfloor>y + 1 / 2\<rfloor> = y + 1 / 2"
proof -
  have "of_int \<lfloor>y + 1 / 2\<rfloor> \<le> y + 1 / 2" "y + 1 / 2 < of_int \<lfloor>y + 1 / 2\<rfloor> + 1"
    by linarith+
  then show "\<bar>of_int \<lfloor>y + 1 / 2\<rfloor> - y\<bar> \<le> 1 / 2"
    and "\<bar>of_int \<lfloor>y + 1 / 2\<rfloor> - y\<bar> = 1 / 2 \<Longrightarrow> of_int \<lfloor>y + 1 / 2\<rfloor> = y + 1 / 2"
    by linarith+
qed

lemma sql_round_nearest:
  "\<exists>k :: int. sql_round x n = of_int k / 10 ^ n
     \<and> \<bar>of_int k - x * 10 ^ n\<bar> \<le> 1 / 2
     \<and> (\<bar>of_int k - x * 10 ^ n\<bar> = 1 / 2 \<longrightarrow> \<bar>x * 10 ^ n\<bar> < \<bar>of_int k\<bar>)"
proof (cases "x < 0")
  case False
  let ?y = "x * 10 ^ n"
  let ?k = "\<lfloor>?y + 1 / 2\<rfloor>"
  from False have y: "0 \<le> ?y" by simp
  have r: "sql_round x n = of_int ?k / 10 ^ n"
    using False by (simp add: sql_round_def)
  have near: "\<bar>of_int ?k - ?y\<bar> \<le> 1 / 2"
    by (rule floor_half_near)
  have tie: "\<bar>?y\<bar> < \<bar>of_int ?k\<bar>" if "\<bar>of_int ?k - ?y\<bar> = 1 / 2"
    using floor_half_near(2) [OF that] y by linarith
  from r near tie show ?thesis by blast
next
  case True
  let ?y = "x * 10 ^ n"
  let ?m = "\<lfloor>- ?y + 1 / 2\<rfloor>"
  from True have y: "?y < 0" by (simp add: mult_less_0_iff)
  have r: "sql_round x n = of_int (- ?m) / 10 ^ n"
    using True by (simp add: sql_round_def)
  have fl: "of_int ?m \<le> - ?y + 1 / 2" "- ?y + 1 / 2 < of_int ?m + 1"
    by linarith+
  have near: "\<bar>of_int (- ?m) - ?y\<bar> \<le> 1 / 2"
    unfolding of_int_minus using fl by linarith
  have tie: "\<bar>?y\<bar> < \<bar>of_int (- ?m)\<bar>" if "\<bar>of_int (- ?m) - ?y\<bar> = 1 / 2"
    using that y fl unfolding of_int_minus by linarith
  from r near tie show ?thesis by blast
qed

subsection \<open>The two reports\<close>




end
